theory Spec2Isabelle
  imports Complex_Main
begin

section \<open>The interactive chess session controller (class ChessPage)\<close>

text \<open>
  The controller is the class \<^verbatim>\<open>ChessPage\<close> under \<^verbatim>\<open>src/app/chess\<close>; its fields are
  mutated by event handlers. Each handler is modelled as a function from the session record to the
  updated session record. The rules engine (\<^verbatim>\<open>chess.js\<close>) is an external library: it is a
  parameter of every handler, a record of functions over an abstract position type \<open>'g\<close>.
  The browser's timer table (\<^verbatim>\<open>setTimeout\<close>, \<^verbatim>\<open>setInterval\<close>) and the log of emitted effects
  (sounds, vibration, confetti) are part of the session record.
  Clock values are integer milliseconds; timestamps and pointer coordinates are reals.
\<close>

subsection \<open>Data\<close>

datatype color = W | B

record piece =
  ptype :: char
  pcolor :: color

record move =
  mcolor :: color
  mfrom :: string
  mto :: string
  flags :: string
  san :: string
  captured :: "char option"
  mpromotion :: "char option"

text \<open>
  The rules engine as the controller uses it. A call that mutates the position returns the
  new position. \<^verbatim>\<open>undo\<close> returns \<open>None\<close> where the library returns \<^verbatim>\<open>null\<close>. \<^verbatim>\<open>move\<close>
  returns \<open>None\<close> where the library rejects the move: the library then throws, the position
  is unchanged, and the handler that made the call is abandoned at that statement, so the
  session stays as it was when the call was made and the statements after the call do not
  run.
\<close>

record 'g engine =
  chess_turn :: "'g \<Rightarrow> color"
  chess_get :: "'g \<Rightarrow> string \<Rightarrow> piece option"
  chess_moves :: "'g \<Rightarrow> string \<Rightarrow> move list"
  chess_move :: "'g \<Rightarrow> string \<Rightarrow> string \<Rightarrow> char option \<Rightarrow> (move \<times> 'g) option"
  chess_move_san :: "'g \<Rightarrow> string \<Rightarrow> (move \<times> 'g) option"
  chess_undo :: "'g \<Rightarrow> (move \<times> 'g) option"
  chess_reset :: "'g \<Rightarrow> 'g"
  chess_isCheck :: "'g \<Rightarrow> bool"
  chess_isCheckmate :: "'g \<Rightarrow> bool"
  chess_isStalemate :: "'g \<Rightarrow> bool"
  chess_isGameOver :: "'g \<Rightarrow> bool"

datatype sound = MoveSnd | CaptureSnd | CastleSnd | CheckSnd | GameoverSnd | IllegalSnd

datatype effect = Vibrate "nat list" | Audio sound | LaunchConfetti | StopConfetti

datatype reason = Checkmate | Stalemate | Draw | Time

record gameover =
  reason :: reason
  message :: string
  winner :: "color option"

text \<open>Callbacks handed to the browser's timers, and the entries of its timer table.\<close>

datatype callback = TickCb | FlashOffCb | RevealCb gameover

datatype timer = Timer (tid: nat) (repeating: bool) (delay: nat) (callback: callback)

record promotion_req =
  ask :: bool
  prcolor :: "color option"
  prfrom :: "string option"
  prto :: "string option"

record drag =
  dfrom :: string
  startX :: real
  startY :: real
  moved :: bool
  currentOverSquare :: "string option"

record 'g session =
  game :: 'g
  redoStack :: "move list"
  suppressClickUntil :: real
  touchDrag :: "drag option"
  gameOverTimeoutId :: "nat option"
  soundOn :: bool
  selected :: "string option"
  lastMoveSquares :: "string set"
  gameOver :: "gameover option"
  baseMs :: int
  incrementMs :: int
  whiteTimeMs :: int
  blackTimeMs :: int
  activeColor :: color
  running :: bool
  timerId :: "nat option"
  stateTick :: nat
  promotion :: promotion_req
  checkFlash :: bool
  draggingCursor :: bool
  timers :: "timer list"
  lastId :: nat
  effects :: "effect list"

subsection \<open>JavaScript truthiness, timers, effects\<close>

text \<open>A string-or-null value is falsy when it is \<^verbatim>\<open>null\<close> or the empty string.\<close>

definition truthy :: "string option \<Rightarrow> bool" where
  "truthy x = (case x of None \<Rightarrow> False | Some v \<Rightarrow> v \<noteq> [])"

text \<open>A timer handle is falsy when it is \<^verbatim>\<open>null\<close> or 0.\<close>

definition truthy_id :: "nat option \<Rightarrow> bool" where
  "truthy_id x = (case x of None \<Rightarrow> False | Some i \<Rightarrow> i \<noteq> 0)"

definition opposite :: "color \<Rightarrow> color" where
  "opposite c = (case c of W \<Rightarrow> B | B \<Rightarrow> W)"

text \<open>\<^verbatim>\<open>Math.hypot\<close>, over the reals.\<close>

definition hypot :: "real \<Rightarrow> real \<Rightarrow> real" where
  "hypot dx dy = sqrt (dx * dx + dy * dy)"

text \<open>
  \<^verbatim>\<open>setTimeout\<close> and \<^verbatim>\<open>setInterval\<close> register an entry under a fresh positive handle;
  \<^verbatim>\<open>clearTimeout\<close> and \<^verbatim>\<open>clearInterval\<close> remove the entries of a handle.
\<close>

definition setTimeout :: "callback \<Rightarrow> nat \<Rightarrow> 'g session \<Rightarrow> nat \<times> 'g session" where
  "setTimeout cb d s =
     (let i = Suc (lastId s)
      in (i, s\<lparr>timers := timers s @ [Timer i False d cb], lastId := i\<rparr>))"

definition setInterval :: "callback \<Rightarrow> nat \<Rightarrow> 'g session \<Rightarrow> nat \<times> 'g session" where
  "setInterval cb d s =
     (let i = Suc (lastId s)
      in (i, s\<lparr>timers := timers s @ [Timer i True d cb], lastId := i\<rparr>))"

definition clearTimer :: "nat \<Rightarrow> 'g session \<Rightarrow> 'g session" where
  "clearTimer i s = s\<lparr>timers := filter (\<lambda>t. tid t \<noteq> i) (timers s)\<rparr>"

definition bumpTick :: "'g session \<Rightarrow> 'g session" where
  "bumpTick s = s\<lparr>stateTick := stateTick s + 1\<rparr>"

definition launchConfetti :: "'g session \<Rightarrow> 'g session" where
  "launchConfetti s = s\<lparr>effects := effects s @ [LaunchConfetti]\<rparr>"

definition stopConfetti :: "'g session \<Rightarrow> 'g session" where
  "stopConfetti s = s\<lparr>effects := effects s @ [StopConfetti]\<rparr>"

text \<open>
  \<^verbatim>\<open>playSound(kind)\<close>: the haptic pulse of the illegal and game-over cues does not depend on
  the sound toggle; the audio does.
\<close>

definition playSound :: "sound \<Rightarrow> 'g session \<Rightarrow> 'g session" where
  "playSound kind s =
     (let s1 = (if kind = IllegalSnd then s\<lparr>effects := effects s @ [Vibrate [30]]\<rparr> else s);
          s2 = (if kind = GameoverSnd then s1\<lparr>effects := effects s1 @ [Vibrate [30, 60, 30]]\<rparr>
                else s1)
      in if \<not> soundOn s2 then s2 else s2\<lparr>effects := effects s2 @ [Audio kind]\<rparr>)"

definition triggerCheckFlash :: "'g session \<Rightarrow> 'g session" where
  "triggerCheckFlash s = snd (setTimeout FlashOffCb 600 (s\<lparr>checkFlash := True\<rparr>))"

definition clearGameOverTimeout :: "'g session \<Rightarrow> 'g session" where
  "clearGameOverTimeout s =
     (if truthy_id (gameOverTimeoutId s)
      then (case gameOverTimeoutId s of
              None \<Rightarrow> s
            | Some i \<Rightarrow> (clearTimer i s)\<lparr>gameOverTimeoutId := None\<rparr>)
      else s)"

subsection \<open>Clock\<close>

definition pauseClocks :: "'g session \<Rightarrow> 'g session" where
  "pauseClocks s =
     (let s1 = (if truthy_id (timerId s)
                then (case timerId s of
                        None \<Rightarrow> s
                      | Some i \<Rightarrow> (clearTimer i s)\<lparr>timerId := None\<rparr>)
                else s)
      in s1\<lparr>running := False\<rparr>)"

definition startClocks :: "'g session \<Rightarrow> 'g session" where
  "startClocks s =
     (if running s then s
      else (case setInterval TickCb 100 (s\<lparr>running := True\<rparr>) of
              (i, s1) \<Rightarrow> s1\<lparr>timerId := Some i\<rparr>))"

definition onFlag :: "'g session \<Rightarrow> 'g session" where
  "onFlag s =
     (let s1 = pauseClocks s;
          winnerColor = (if whiteTimeMs s1 \<le> 0 then B else W);
          s2 = launchConfetti s1;
          s3 = playSound GameoverSnd s2;
          s4 = clearGameOverTimeout s3
      in (case setTimeout
                 (RevealCb \<lparr>reason = Time, message = ''on time'', winner = Some winnerColor\<rparr>)
                 1500 s4 of
            (i, s5) \<Rightarrow> s5\<lparr>gameOverTimeoutId := Some i\<rparr>))"

text \<open>The closure \<^verbatim>\<open>tick\<close> that \<^verbatim>\<open>startClocks\<close> hands to \<^verbatim>\<open>setInterval\<close>.\<close>

definition tick :: "'g engine \<Rightarrow> 'g session \<Rightarrow> 'g session" where
  "tick E s =
     (let nowTurn = chess_turn E (game s)
      in if ask (promotion s) then s
         else (let s1 = (if nowTurn = W then s\<lparr>whiteTimeMs := whiteTimeMs s - 100\<rparr>
                         else s\<lparr>blackTimeMs := blackTimeMs s - 100\<rparr>)
               in if whiteTimeMs s1 \<le> 0 \<or> blackTimeMs s1 \<le> 0 then onFlag s1 else s1))"

definition setTimeControl :: "int \<Rightarrow> int \<Rightarrow> 'g session \<Rightarrow> 'g session" where
  "setTimeControl baseMinutes incSeconds s =
     (let base = baseMinutes * 60 * 1000; inc = incSeconds * 1000
      in pauseClocks (s\<lparr>baseMs := base, incrementMs := inc, whiteTimeMs := base,
                        blackTimeMs := base, activeColor := W\<rparr>))"

subsection \<open>Game-over banner, commit, undo and redo\<close>

definition updateGameOverBanner :: "'g engine \<Rightarrow> 'g session \<Rightarrow> 'g session" where
  "updateGameOverBanner E s =
     (if chess_isGameOver E (game s) then
        (let s1 = pauseClocks s
         in if chess_isCheckmate E (game s1) then
              (let winnerColor = (if chess_turn E (game s1) = W then B else W);
                   s2 = launchConfetti s1;
                   s3 = playSound GameoverSnd s2;
                   s4 = clearGameOverTimeout s3
               in (case setTimeout
                          (RevealCb \<lparr>reason = Checkmate, message = ''by checkmate'',
                                     winner = Some winnerColor\<rparr>)
                          1500 s4 of
                     (i, s5) \<Rightarrow> s5\<lparr>gameOverTimeoutId := Some i\<rparr>))
            else if chess_isStalemate E (game s1) then
              s1\<lparr>gameOver :=
                   Some \<lparr>reason = Stalemate, message = ''by stalemate'', winner = None\<rparr>\<rparr>
            else
              s1\<lparr>gameOver := Some \<lparr>reason = Draw, message = ''draw'', winner = None\<rparr>\<rparr>)
      else s\<lparr>gameOver := None\<rparr>)"

definition afterMoveUpdate :: "'g engine \<Rightarrow> move \<Rightarrow> 'g session \<Rightarrow> 'g session" where
  "afterMoveUpdate E m s =
     (let s1 = s\<lparr>redoStack := [], selected := None, lastMoveSquares := {mfrom m, mto m}\<rparr>;
          s2 = (if soundOn s1 then
                  (let isCastle = (CHR ''k'' \<in> set (flags m) \<or> CHR ''q'' \<in> set (flags m));
                       isCapture = (captured m \<noteq> None \<or> CHR ''c'' \<in> set (flags m)
                                    \<or> CHR ''e'' \<in> set (flags m));
                       isMate = chess_isCheckmate E (game s1);
                       isCheck = chess_isCheck E (game s1)
                   in if isMate then s1
                      else if isCheck then playSound CheckSnd s1
                      else if isCastle then playSound CastleSnd s1
                      else if isCapture then playSound CaptureSnd s1
                      else playSound MoveSnd s1)
                else s1);
          s3 = updateGameOverBanner E s2;
          s4 = bumpTick s3;
          inc = incrementMs s4
      in if inc > 0 then
           (if mcolor m = W then s4\<lparr>whiteTimeMs := whiteTimeMs s4 + inc\<rparr>
            else s4\<lparr>blackTimeMs := blackTimeMs s4 + inc\<rparr>)
         else s4)"

text \<open>
  \<^verbatim>\<open>const res = this.game.move({from, to}); if (res) this.afterMoveUpdate(res)\<close>: the common
  tail of the click and drop paths. Nothing has been changed before the call, so a rejected
  move leaves the session as it was.
\<close>

definition moveAndCommit ::
  "'g engine \<Rightarrow> string \<Rightarrow> string \<Rightarrow> char option \<Rightarrow> 'g session \<Rightarrow> 'g session" where
  "moveAndCommit E f t p s =
     (case chess_move E (game s) f t p of
        None \<Rightarrow> s
      | Some (res, g') \<Rightarrow> afterMoveUpdate E res (s\<lparr>game := g'\<rparr>))"

definition reset :: "'g engine \<Rightarrow> 'g session \<Rightarrow> 'g session" where
  "reset E s =
     (let s1 = s\<lparr>game := chess_reset E (game s), redoStack := [], selected := None,
                 lastMoveSquares := {}\<rparr>;
          s2 = stopConfetti s1;
          s3 = updateGameOverBanner E s2;
          s4 = bumpTick s3;
          s5 = pauseClocks s4
      in s5\<lparr>whiteTimeMs := baseMs s5, blackTimeMs := baseMs s5, activeColor := W\<rparr>)"

definition undo :: "'g engine \<Rightarrow> 'g session \<Rightarrow> 'g session" where
  "undo E s =
     (case chess_undo E (game s) of
        None \<Rightarrow> s
      | Some (m, g') \<Rightarrow>
          (let s1 = s\<lparr>game := g', redoStack := redoStack s @ [m], selected := None,
                      lastMoveSquares := {}\<rparr>;
               s2 = updateGameOverBanner E s1;
               s3 = bumpTick s2
           in if soundOn s3 then playSound MoveSnd s3 else s3))"

text \<open>
  \<^verbatim>\<open>redoStack.pop()\<close> runs before the engine call: the last element is removed also when
  the engine then rejects the move.
\<close>

definition redo :: "'g engine \<Rightarrow> 'g session \<Rightarrow> 'g session" where
  "redo E s =
     (if redoStack s = [] then s
      else (let mv = last (redoStack s);
                s1 = s\<lparr>redoStack := butlast (redoStack s)\<rparr>
            in (case chess_move_san E (game s1) (san mv) of
                  None \<Rightarrow> s1
                | Some (res, g') \<Rightarrow> afterMoveUpdate E res (s1\<lparr>game := g'\<rparr>))))"

definition dismissGameOver :: "'g session \<Rightarrow> 'g session" where
  "dismissGameOver s = stopConfetti (clearGameOverTimeout (s\<lparr>gameOver := None\<rparr>))"

text \<open>What the browser does when a registered timer fires: a timeout is removed, an interval stays.\<close>

definition runCallback :: "'g engine \<Rightarrow> callback \<Rightarrow> 'g session \<Rightarrow> 'g session" where
  "runCallback E cb s =
     (case cb of
        TickCb \<Rightarrow> tick E s
      | FlashOffCb \<Rightarrow> s\<lparr>checkFlash := False\<rparr>
      | RevealCb r \<Rightarrow> s\<lparr>gameOver := Some r, gameOverTimeoutId := None\<rparr>)"

definition fire :: "'g engine \<Rightarrow> nat \<Rightarrow> 'g session \<Rightarrow> 'g session" where
  "fire E i s =
     (case find (\<lambda>t. tid t = i) (timers s) of
        None \<Rightarrow> s
      | Some t \<Rightarrow>
          runCallback E (callback t)
            (if repeating t then s else clearTimer i s))"

subsection \<open>Click resolution, drop resolution, promotion choice\<close>

definition clearSelection :: "'g session \<Rightarrow> 'g session" where
  "clearSelection s = bumpTick (s\<lparr>selected := None, lastMoveSquares := {}\<rparr>)"

text \<open>
  The computed signal \<^verbatim>\<open>isCheck\<close> is re-evaluated after every \<^verbatim>\<open>bumpTick\<close>, and every
  handler that changes the position bumps the tick before it returns; a handler therefore
  reads the engine's current answer, which is what the model calls.
\<close>

definition requestPromotion :: "move \<Rightarrow> 'g session \<Rightarrow> 'g session" where
  "requestPromotion target s =
     s\<lparr>promotion := \<lparr>ask = True, prcolor = Some (mcolor target),
                      prfrom = Some (mfrom target), prto = Some (mto target)\<rparr>\<rparr>"

text \<open>The branch of \<^verbatim>\<open>onSquareClick\<close> taken when nothing is selected.\<close>

definition clickIdle :: "'g engine \<Rightarrow> string \<Rightarrow> 'g session \<Rightarrow> 'g session" where
  "clickIdle E name s =
     (case chess_get E (game s) name of
        None \<Rightarrow> (if chess_isCheck E (game s) then triggerCheckFlash s else s)
      | Some pc \<Rightarrow>
          if pcolor pc \<noteq> chess_turn E (game s) then
            playSound IllegalSnd (if chess_isCheck E (game s) then triggerCheckFlash s else s)
          else if chess_isCheck E (game s) \<and> chess_moves E (game s) name = [] then
            playSound IllegalSnd (triggerCheckFlash s)
          else s\<lparr>selected := Some name\<rparr>)"

text \<open>The branch taken when \<open>currentSel\<close> is selected and another square is clicked.\<close>

definition clickSelected :: "'g engine \<Rightarrow> string \<Rightarrow> string \<Rightarrow> 'g session \<Rightarrow> 'g session" where
  "clickSelected E currentSel name s =
     (case find (\<lambda>m. mto m = name) (chess_moves E (game s) currentSel) of
        None \<Rightarrow>
          (case chess_get E (game s) name of
             None \<Rightarrow> clearSelection (playSound IllegalSnd s)
           | Some pc \<Rightarrow>
               if pcolor pc = chess_turn E (game s) then
                 (if chess_isCheck E (game s) \<and> chess_moves E (game s) name = [] then
                    playSound IllegalSnd (triggerCheckFlash s)
                  else s\<lparr>selected := Some name\<rparr>)
               else clearSelection (playSound IllegalSnd s))
      | Some target \<Rightarrow>
          if CHR ''p'' \<in> set (flags target) then requestPromotion target s
          else moveAndCommit E (mfrom target) (mto target) None s)"

text \<open>\<open>now\<close> is the value of \<^verbatim>\<open>performance.now()\<close> when the click arrives.\<close>

definition onSquareClick :: "'g engine \<Rightarrow> real \<Rightarrow> string \<Rightarrow> 'g session \<Rightarrow> 'g session" where
  "onSquareClick E now name s =
     (if now < suppressClickUntil s then s
      else if ask (promotion s) then s
      else if chess_isGameOver E (game s) \<or> gameOver s \<noteq> None then s
      else if \<not> running s then s
      else (case selected s of
              None \<Rightarrow> clickIdle E name s
            | Some currentSel \<Rightarrow>
                if currentSel = [] then clickIdle E name s
                else if currentSel = name then clearSelection s
                else clickSelected E currentSel name s))"

definition tryMove :: "'g engine \<Rightarrow> string \<Rightarrow> string \<Rightarrow> 'g session \<Rightarrow> 'g session" where
  "tryMove E from to s =
     (if ask (promotion s) \<or> chess_isGameOver E (game s) \<or> gameOver s \<noteq> None \<or> \<not> running s
      then s
      else (case find (\<lambda>m. mto m = to) (chess_moves E (game s) from) of
              None \<Rightarrow> clearSelection (playSound IllegalSnd s)
            | Some target \<Rightarrow>
                if CHR ''p'' \<in> set (flags target) then requestPromotion target s
                else moveAndCommit E (mfrom target) (mto target) None s))"

text \<open>
  In \<^verbatim>\<open>promote\<close> the pending record is cleared by the statement after the engine call:
  when the engine rejects the held move that statement does not run, and the record stays
  pending.
\<close>

definition promote :: "'g engine \<Rightarrow> char \<Rightarrow> 'g session \<Rightarrow> 'g session" where
  "promote E pc s =
     (let p = promotion s
      in if \<not> ask p \<or> \<not> truthy (prfrom p) \<or> \<not> truthy (prto p) \<or> prcolor p = None then s
         else (case (prfrom p, prto p) of
                 (Some f, Some t) \<Rightarrow>
                   (let cleared = \<lparr>ask = False, prcolor = None, prfrom = None, prto = None\<rparr>
                    in (case chess_move E (game s) f t (Some pc) of
                          None \<Rightarrow> s
                        | Some (res, g') \<Rightarrow>
                            afterMoveUpdate E res (s\<lparr>game := g', promotion := cleared\<rparr>)))
               | _ \<Rightarrow> s))"

subsection \<open>Gestures: pointer, mouse and touch\<close>

text \<open>
  The floating ghost image, the CSS classes and the listener registrations belong to the
  presentation; the model keeps \<^verbatim>\<open>touchDrag\<close> (source square, origin, \<^verbatim>\<open>moved\<close>, hovered
  square), the selection and the dragging cursor. \<open>over\<close> is the \<^verbatim>\<open>data-square\<close> attribute
  of the element under the pointer, if any.
\<close>

text \<open>The checks shared by the three press handlers, after their modality-specific guards.\<close>

definition newDrag :: "string \<Rightarrow> real \<Rightarrow> real \<Rightarrow> drag" where
  "newDrag from x y =
     \<lparr>dfrom = from, startX = x, startY = y, moved = False, currentOverSquare = None\<rparr>"

definition onPiecePointerDown ::
  "'g engine \<Rightarrow> string \<Rightarrow> int \<Rightarrow> string \<Rightarrow> real \<Rightarrow> real \<Rightarrow> 'g session \<Rightarrow> 'g session" where
  "onPiecePointerDown E from button pointerType x y s =
     (if button \<noteq> 0 then s
      else if pointerType = ''mouse'' then s
      else if ask (promotion s) \<or> chess_isGameOver E (game s) \<or> gameOver s \<noteq> None then s
      else (case chess_get E (game s) from of
              None \<Rightarrow>
                playSound IllegalSnd (if chess_isCheck E (game s) then triggerCheckFlash s else s)
            | Some pc \<Rightarrow>
                if pcolor pc \<noteq> chess_turn E (game s) then
                  playSound IllegalSnd
                    (if chess_isCheck E (game s) then triggerCheckFlash s else s)
                else if chess_isCheck E (game s) \<and> chess_moves E (game s) from = [] then
                  playSound IllegalSnd (triggerCheckFlash s)
                else s\<lparr>touchDrag := Some (newDrag from x y)\<rparr>))"

definition onMouseDownPiece ::
  "'g engine \<Rightarrow> string \<Rightarrow> int \<Rightarrow> real \<Rightarrow> real \<Rightarrow> 'g session \<Rightarrow> 'g session" where
  "onMouseDownPiece E from button x y s =
     (if button \<noteq> 0 then s
      else if ask (promotion s) \<or> chess_isGameOver E (game s) \<or> gameOver s \<noteq> None then s
      else (case chess_get E (game s) from of
              None \<Rightarrow>
                playSound IllegalSnd (if chess_isCheck E (game s) then triggerCheckFlash s else s)
            | Some pc \<Rightarrow>
                if pcolor pc \<noteq> chess_turn E (game s) then
                  playSound IllegalSnd
                    (if chess_isCheck E (game s) then triggerCheckFlash s else s)
                else if chess_isCheck E (game s) \<and> chess_moves E (game s) from = [] then
                  playSound IllegalSnd (triggerCheckFlash s)
                else s\<lparr>touchDrag := Some (newDrag from x y)\<rparr>))"

text \<open>\<open>ntouches\<close> is \<^verbatim>\<open>ev.touches.length\<close>; \<open>x\<close>, \<open>y\<close> the coordinates of the first touch.\<close>

definition onPieceTouchStart ::
  "'g engine \<Rightarrow> string \<Rightarrow> nat \<Rightarrow> real \<Rightarrow> real \<Rightarrow> 'g session \<Rightarrow> 'g session" where
  "onPieceTouchStart E from ntouches x y s =
     (if ntouches \<noteq> 1 then s
      else if ask (promotion s) \<or> chess_isGameOver E (game s) \<or> gameOver s \<noteq> None then s
      else (let s1 = (if chess_isCheck E (game s) then triggerCheckFlash s else s);
                bad = (if soundOn s1 then playSound IllegalSnd s1 else s1)
            in (case chess_get E (game s) from of
                  None \<Rightarrow> bad
                | Some pc \<Rightarrow>
                    if pcolor pc \<noteq> chess_turn E (game s) then bad
                    else if chess_isCheck E (game s) \<and> chess_moves E (game s) from = [] then
                      (let s2 = triggerCheckFlash s
                       in if soundOn s2 then playSound IllegalSnd s2 else s2)
                    else s\<lparr>touchDrag := Some (newDrag from x y), selected := Some from\<rparr>)))"

text \<open>\<^verbatim>\<open>sqEl?.getAttribute('data-square') || undefined\<close>, and the hover update.\<close>

definition hover :: "string option \<Rightarrow> drag \<Rightarrow> drag" where
  "hover over d =
     (let newSq = (if truthy over then over else None)
      in if newSq \<noteq> currentOverSquare d then d\<lparr>currentOverSquare := newSq\<rparr> else d)"

definition onGlobalPointerMove ::
  "real \<Rightarrow> real \<Rightarrow> string option \<Rightarrow> 'g session \<Rightarrow> 'g session" where
  "onGlobalPointerMove x y over s =
     (case touchDrag s of
        None \<Rightarrow> s
      | Some d \<Rightarrow>
          if \<not> moved d \<and> hypot (x - startX d) (y - startY d) > 4 then
            s\<lparr>touchDrag := Some (hover over (d\<lparr>moved := True\<rparr>)),
              selected := Some (dfrom d), draggingCursor := True\<rparr>
          else s\<lparr>touchDrag := Some (hover over d)\<rparr>)"

definition onGlobalMouseMove ::
  "real \<Rightarrow> real \<Rightarrow> string option \<Rightarrow> 'g session \<Rightarrow> 'g session" where
  "onGlobalMouseMove x y over s =
     (case touchDrag s of
        None \<Rightarrow> s
      | Some d \<Rightarrow>
          if \<not> moved d \<and> hypot (x - startX d) (y - startY d) > 4 then
            s\<lparr>touchDrag := Some (hover over (d\<lparr>moved := True\<rparr>)),
              selected := Some (dfrom d), draggingCursor := True\<rparr>
          else s\<lparr>touchDrag := Some (hover over d)\<rparr>)"

definition onGlobalTouchMove ::
  "nat \<Rightarrow> real \<Rightarrow> real \<Rightarrow> string option \<Rightarrow> 'g session \<Rightarrow> 'g session" where
  "onGlobalTouchMove ntouches x y over s =
     (case touchDrag s of
        None \<Rightarrow> s
      | Some d \<Rightarrow>
          if ntouches \<noteq> 1 then s
          else if \<not> moved d \<and> hypot (x - startX d) (y - startY d) > 4 then
            s\<lparr>touchDrag := Some (hover over (d\<lparr>moved := True\<rparr>))\<rparr>
          else s\<lparr>touchDrag := Some (hover over d)\<rparr>)"

text \<open>
  The release shared by the three modalities: a drop is resolved only after a drag that
  moved, over a square other than the source; \<open>now\<close> is \<^verbatim>\<open>performance.now()\<close> after it.
\<close>

definition release :: "'g engine \<Rightarrow> real \<Rightarrow> drag \<Rightarrow> 'g session \<Rightarrow> 'g session" where
  "release E now d s =
     (if moved d then
        (case currentOverSquare d of
           None \<Rightarrow> s
         | Some sq \<Rightarrow>
             if sq \<noteq> [] \<and> sq \<noteq> dfrom d then
               (tryMove E (dfrom d) sq s)\<lparr>suppressClickUntil := now + 250\<rparr>
             else s)
      else s)"

definition onGlobalPointerUp :: "'g engine \<Rightarrow> real \<Rightarrow> 'g session \<Rightarrow> 'g session" where
  "onGlobalPointerUp E now s =
     (case touchDrag s of
        None \<Rightarrow> s
      | Some d \<Rightarrow> (release E now d s)\<lparr>touchDrag := None, draggingCursor := False\<rparr>)"

definition onGlobalMouseUp :: "'g engine \<Rightarrow> real \<Rightarrow> 'g session \<Rightarrow> 'g session" where
  "onGlobalMouseUp E now s =
     (case touchDrag s of
        None \<Rightarrow> s
      | Some d \<Rightarrow> (release E now d s)\<lparr>touchDrag := None\<rparr>)"

definition onGlobalTouchEnd :: "'g engine \<Rightarrow> real \<Rightarrow> 'g session \<Rightarrow> 'g session" where
  "onGlobalTouchEnd E now s =
     (case touchDrag s of
        None \<Rightarrow> s
      | Some d \<Rightarrow> (release E now d s)\<lparr>touchDrag := None\<rparr>)"

subsection \<open>A freshly constructed page\<close>

text \<open>The field initialisers of the class, for a given engine position.\<close>

definition newSession :: "'g \<Rightarrow> 'g session" where
  "newSession g =
     \<lparr>game = g, redoStack = [], suppressClickUntil = 0, touchDrag = None,
      gameOverTimeoutId = None, soundOn = True, selected = None, lastMoveSquares = {},
      gameOver = None, baseMs = 600000, incrementMs = 0, whiteTimeMs = 600000,
      blackTimeMs = 600000, activeColor = W, running = False, timerId = None, stateTick = 0,
      promotion = \<lparr>ask = False, prcolor = None, prfrom = None, prto = None\<rparr>,
      checkFlash = False, draggingCursor = False, timers = [], lastId = 0, effects = []\<rparr>"

text \<open>A session with the 3+2 time control chosen and the clock started.\<close>

definition started :: "'g \<Rightarrow> 'g session" where
  "started g = startClocks (setTimeControl 3 2 (newSession g))"

subsection \<open>A sample of engine behaviour for concrete runs\<close>

text \<open>
  Nine chess positions and the engine's answers on them. The sample is partial: the
  answers it gives to the queries made in the concrete runs below are those of the rules
  of chess; any other query gets the empty answer (no piece, no legal move, move
  rejected), which need not be what the engine would say.
  \<^item> \<open>Initial\<close>: the starting position; \<open>AfterE4\<close>: after 1. e4.
  \<^item> \<open>PreMate\<close>: \<^verbatim>\<open>rnbqkbnr/pppp1ppp/8/4p3/6P1/5P2/PPPPP2P/RNBQKBNR b KQkq - 0 2\<close>;
    \<open>Mated\<close>: after 2... Qh4 mate there.
  \<^item> \<open>InCheck\<close>: \<^verbatim>\<open>rnbqkbnr/ppppp1pp/8/5p1Q/4P3/8/PPPP1PPP/RNBQKBNR b KQkq - 1 2\<close>, Black is in
    check and g6 is the only legal move.
  \<^item> \<open>StalematePos\<close>: \<^verbatim>\<open>7k/5Q2/6K1/8/8/8/8/8 b - - 0 1\<close>;
    \<open>DrawPos\<close>: \<^verbatim>\<open>8/8/8/4k3/8/8/4K3/8 w - - 0 1\<close> (bare kings).
  \<^item> \<open>PromoReady\<close>: \<^verbatim>\<open>8/P7/7k/8/8/8/8/K7 w - - 0 1\<close>; \<open>PromoDone\<close>: after a8=Q there.
\<close>

datatype sample_pos =
  Initial | AfterE4 | PreMate | Mated | InCheck | StalematePos | DrawPos | PromoReady | PromoDone

definition mk_move :: "color \<Rightarrow> string \<Rightarrow> string \<Rightarrow> string \<Rightarrow> string \<Rightarrow> char option \<Rightarrow> move" where
  "mk_move c f t fl sn pr =
     \<lparr>mcolor = c, mfrom = f, mto = t, flags = fl, san = sn, captured = None, mpromotion = pr\<rparr>"

definition mv_e4 :: move where
  "mv_e4 = mk_move W ''e2'' ''e4'' ''b'' ''e4'' None"

definition mv_Qh4 :: move where
  "mv_Qh4 = mk_move B ''d8'' ''h4'' ''n'' ''Qh4#'' None"

definition mv_a8Q :: move where
  "mv_a8Q = mk_move W ''a7'' ''a8'' ''np'' ''a8=Q'' (Some CHR ''q'')"

definition mk_piece :: "char \<Rightarrow> color \<Rightarrow> piece" where
  "mk_piece t c = \<lparr>ptype = t, pcolor = c\<rparr>"

fun sample_turn :: "sample_pos \<Rightarrow> color" where
  "sample_turn Initial = W"
| "sample_turn AfterE4 = B"
| "sample_turn PreMate = B"
| "sample_turn Mated = W"
| "sample_turn InCheck = B"
| "sample_turn StalematePos = B"
| "sample_turn DrawPos = W"
| "sample_turn PromoReady = W"
| "sample_turn PromoDone = B"

fun sample_get :: "sample_pos \<Rightarrow> string \<Rightarrow> piece option" where
  "sample_get Initial sq =
     (if sq = ''e2'' then Some (mk_piece CHR ''p'' W)
      else if sq = ''g1'' then Some (mk_piece CHR ''n'' W)
      else if sq = ''e7'' then Some (mk_piece CHR ''p'' B)
      else None)"
| "sample_get AfterE4 sq =
     (if sq = ''e4'' then Some (mk_piece CHR ''p'' W)
      else if sq = ''e7'' then Some (mk_piece CHR ''p'' B)
      else None)"
| "sample_get PreMate sq =
     (if sq = ''d8'' then Some (mk_piece CHR ''q'' B)
      else if sq = ''g4'' then Some (mk_piece CHR ''p'' W)
      else None)"
| "sample_get Mated sq =
     (if sq = ''h4'' then Some (mk_piece CHR ''q'' B)
      else if sq = ''e1'' then Some (mk_piece CHR ''k'' W)
      else None)"
| "sample_get InCheck sq =
     (if sq = ''a7'' then Some (mk_piece CHR ''p'' B)
      else if sq = ''g7'' then Some (mk_piece CHR ''p'' B)
      else if sq = ''h5'' then Some (mk_piece CHR ''q'' W)
      else None)"
| "sample_get StalematePos sq =
     (if sq = ''h8'' then Some (mk_piece CHR ''k'' B)
      else if sq = ''f7'' then Some (mk_piece CHR ''q'' W)
      else if sq = ''g6'' then Some (mk_piece CHR ''k'' W)
      else None)"
| "sample_get DrawPos sq =
     (if sq = ''e5'' then Some (mk_piece CHR ''k'' B)
      else if sq = ''e2'' then Some (mk_piece CHR ''k'' W)
      else None)"
| "sample_get PromoReady sq =
     (if sq = ''a7'' then Some (mk_piece CHR ''p'' W)
      else if sq = ''a1'' then Some (mk_piece CHR ''k'' W)
      else if sq = ''h6'' then Some (mk_piece CHR ''k'' B)
      else None)"
| "sample_get PromoDone sq =
     (if sq = ''a8'' then Some (mk_piece CHR ''q'' W)
      else if sq = ''a1'' then Some (mk_piece CHR ''k'' W)
      else if sq = ''h6'' then Some (mk_piece CHR ''k'' B)
      else None)"

fun sample_moves :: "sample_pos \<Rightarrow> string \<Rightarrow> move list" where
  "sample_moves Initial sq =
     (if sq = ''e2'' then [mk_move W ''e2'' ''e3'' ''n'' ''e3'' None, mv_e4]
      else if sq = ''g1'' then
        [mk_move W ''g1'' ''f3'' ''n'' ''Nf3'' None, mk_move W ''g1'' ''h3'' ''n'' ''Nh3'' None]
      else [])"
| "sample_moves AfterE4 sq =
     (if sq = ''e7'' then
        [mk_move B ''e7'' ''e6'' ''n'' ''e6'' None, mk_move B ''e7'' ''e5'' ''b'' ''e5'' None]
      else [])"
| "sample_moves PreMate sq =
     (if sq = ''d8'' then
        [mk_move B ''d8'' ''e7'' ''n'' ''Qe7'' None, mk_move B ''d8'' ''f6'' ''n'' ''Qf6'' None,
         mk_move B ''d8'' ''g5'' ''n'' ''Qg5'' None, mv_Qh4]
      else [])"
| "sample_moves InCheck sq =
     (if sq = ''g7'' then [mk_move B ''g7'' ''g6'' ''n'' ''g6'' None] else [])"
| "sample_moves PromoReady sq =
     (if sq = ''a7'' then
        [mv_a8Q, mk_move W ''a7'' ''a8'' ''np'' ''a8=R'' (Some CHR ''r''),
         mk_move W ''a7'' ''a8'' ''np'' ''a8=B'' (Some CHR ''b''),
         mk_move W ''a7'' ''a8'' ''np'' ''a8=N'' (Some CHR ''n'')]
      else [])"
| "sample_moves _ sq = []"

fun sample_move :: "sample_pos \<Rightarrow> string \<Rightarrow> string \<Rightarrow> char option \<Rightarrow> (move \<times> sample_pos) option" where
  "sample_move Initial f t p =
     (if f = ''e2'' \<and> t = ''e4'' then Some (mv_e4, AfterE4) else None)"
| "sample_move PreMate f t p =
     (if f = ''d8'' \<and> t = ''h4'' then Some (mv_Qh4, Mated) else None)"
| "sample_move PromoReady f t p =
     (if f = ''a7'' \<and> t = ''a8'' \<and> p = Some CHR ''q'' then Some (mv_a8Q, PromoDone) else None)"
| "sample_move _ f t p = None"

fun sample_move_san :: "sample_pos \<Rightarrow> string \<Rightarrow> (move \<times> sample_pos) option" where
  "sample_move_san Initial n = (if n = ''e4'' then Some (mv_e4, AfterE4) else None)"
| "sample_move_san PreMate n = (if n = ''Qh4#'' then Some (mv_Qh4, Mated) else None)"
| "sample_move_san PromoReady n = (if n = ''a8=Q'' then Some (mv_a8Q, PromoDone) else None)"
| "sample_move_san _ n = None"

fun sample_undo :: "sample_pos \<Rightarrow> (move \<times> sample_pos) option" where
  "sample_undo AfterE4 = Some (mv_e4, Initial)"
| "sample_undo Mated = Some (mv_Qh4, PreMate)"
| "sample_undo PromoDone = Some (mv_a8Q, PromoReady)"
| "sample_undo _ = None"

definition sample_engine :: "sample_pos engine" where
  "sample_engine =
     \<lparr>chess_turn = sample_turn, chess_get = sample_get, chess_moves = sample_moves,
      chess_move = sample_move, chess_move_san = sample_move_san, chess_undo = sample_undo,
      chess_reset = (\<lambda>g. Initial),
      chess_isCheck = (\<lambda>g. g = Mated \<or> g = InCheck),
      chess_isCheckmate = (\<lambda>g. g = Mated),
      chess_isStalemate = (\<lambda>g. g = StalematePos),
      chess_isGameOver = (\<lambda>g. g = Mated \<or> g = StalematePos \<or> g = DrawPos)\<rparr>"

subsection \<open>The commit protocol, in the specification's words\<close>

text \<open>
  \<open>commit_post m g' s s'\<close>: the session \<open>s'\<close> is what the commit of the applied move \<open>m\<close>
  must leave, where \<open>s\<close> is the session before the operation and \<open>g'\<close> the position the
  engine returned: the board holds the move, the redo stack is empty, nothing is selected,
  the highlight is the pair of the move, and the increment, when positive, has been added
  to the mover's clock and to no other.
\<close>

definition commit_post :: "move \<Rightarrow> 'g \<Rightarrow> 'g session \<Rightarrow> 'g session \<Rightarrow> bool" where
  "commit_post m g' s s' =
     (game s' = g' \<and> redoStack s' = [] \<and> selected s' = None \<and>
      lastMoveSquares s' = {mfrom m, mto m} \<and>
      whiteTimeMs s' =
        whiteTimeMs s + (if 0 < incrementMs s \<and> mcolor m = W then incrementMs s else 0) \<and>
      blackTimeMs s' =
        blackTimeMs s + (if 0 < incrementMs s \<and> mcolor m = B then incrementMs s else 0))"

subsection \<open>Pending reveal of the game-over record\<close>

text \<open>A timer entry whose callback sets the game-over record, and whether one is registered.\<close>

definition isReveal :: "timer \<Rightarrow> bool" where
  "isReveal t = (case callback t of RevealCb r \<Rightarrow> True | _ \<Rightarrow> False)"

definition revealPending :: "'g session \<Rightarrow> bool" where
  "revealPending s = list_ex isReveal (timers s)"

section \<open>Properties\<close>

subsection \<open>Auxiliary facts\<close>

lemma hypot_gt_4: "(hypot dx dy > 4) = (dx * dx + dy * dy > 16)"
proof -
  have "(4 < sqrt (dx * dx + dy * dy)) = (sqrt 16 < sqrt (dx * dx + dy * dy))"
    by simp
  also have "\<dots> = (16 < dx * dx + dy * dy)"
    by (rule real_sqrt_less_iff)
  finally show ?thesis by (simp add: hypot_def)
qed

lemma pauseClocks_times [simp]:
  "whiteTimeMs (pauseClocks s) = whiteTimeMs s" "blackTimeMs (pauseClocks s) = blackTimeMs s"
  by (simp_all add: pauseClocks_def clearTimer_def Let_def split: option.splits)

lemmas base_defs = pauseClocks_def clearTimer_def launchConfetti_def stopConfetti_def
  playSound_def clearGameOverTimeout_def setTimeout_def setInterval_def bumpTick_def
  triggerCheckFlash_def truthy_id_def

lemma onFlag_times:
  "whiteTimeMs (onFlag s) = whiteTimeMs s" "blackTimeMs (onFlag s) = blackTimeMs s"
  by (simp_all add: onFlag_def base_defs Let_def split: option.splits)

lemma sample_simps:
  "chess_turn sample_engine = sample_turn" "chess_get sample_engine = sample_get"
  "chess_moves sample_engine = sample_moves" "chess_move sample_engine = sample_move"
  "chess_move_san sample_engine = sample_move_san" "chess_undo sample_engine = sample_undo"
  "chess_reset sample_engine g = Initial"
  "chess_isCheck sample_engine g = (g = Mated \<or> g = InCheck)"
  "chess_isCheckmate sample_engine g = (g = Mated)"
  "chess_isStalemate sample_engine g = (g = StalematePos)"
  "chess_isGameOver sample_engine g = (g = Mated \<or> g = StalematePos \<or> g = DrawPos)"
  by (simp_all add: sample_engine_def)

lemma updateGameOverBanner_frame:
  "game (updateGameOverBanner E s) = game s"
  "redoStack (updateGameOverBanner E s) = redoStack s"
  "selected (updateGameOverBanner E s) = selected s"
  "lastMoveSquares (updateGameOverBanner E s) = lastMoveSquares s"
  "whiteTimeMs (updateGameOverBanner E s) = whiteTimeMs s"
  "blackTimeMs (updateGameOverBanner E s) = blackTimeMs s"
  "incrementMs (updateGameOverBanner E s) = incrementMs s"
  by (simp_all add: updateGameOverBanner_def base_defs Let_def split: option.splits)

lemma playSound_frame:
  "game (playSound k s) = game s"
  "redoStack (playSound k s) = redoStack s"
  "selected (playSound k s) = selected s"
  "lastMoveSquares (playSound k s) = lastMoveSquares s"
  "whiteTimeMs (playSound k s) = whiteTimeMs s"
  "blackTimeMs (playSound k s) = blackTimeMs s"
  "incrementMs (playSound k s) = incrementMs s"
  by (simp_all add: playSound_def Let_def)

lemma afterMoveUpdate_fields:
  "game (afterMoveUpdate E m s) = game s"
  "redoStack (afterMoveUpdate E m s) = []"
  "selected (afterMoveUpdate E m s) = None"
  "lastMoveSquares (afterMoveUpdate E m s) = {mfrom m, mto m}"
  "whiteTimeMs (afterMoveUpdate E m s) =
     whiteTimeMs s + (if 0 < incrementMs s \<and> mcolor m = W then incrementMs s else 0)"
  "blackTimeMs (afterMoveUpdate E m s) =
     blackTimeMs s + (if 0 < incrementMs s \<and> mcolor m = B then incrementMs s else 0)"
  by (cases "mcolor m";
      simp add: afterMoveUpdate_def Let_def bumpTick_def updateGameOverBanner_frame
        playSound_frame)+

lemma afterMoveUpdate_post:
  "commit_post m (game s) s (afterMoveUpdate E m s)"
  by (simp add: commit_post_def afterMoveUpdate_fields)

lemma moveAndCommit_post:
  "chess_move E (game s) f t p = Some (res, g') \<Longrightarrow>
   commit_post res g' s (moveAndCommit E f t p s)"
  using afterMoveUpdate_post [of res "s\<lparr>game := g'\<rparr>" E]
  by (simp add: moveAndCommit_def commit_post_def)

lemmas run_defs = started_def newSession_def setTimeControl_def startClocks_def onSquareClick_def
  clickIdle_def clickSelected_def moveAndCommit_def afterMoveUpdate_def updateGameOverBanner_def
  requestPromotion_def tryMove_def promote_def undo_def redo_def truthy_def
  mv_e4_def mv_Qh4_def mv_a8Q_def mk_move_def mk_piece_def clearSelection_def

lemma sel_e2:
  "onSquareClick sample_engine 0 ''e2'' (started Initial) =
   (started Initial)\<lparr>selected := Some ''e2''\<rparr>"
  by (simp add: run_defs base_defs sample_simps Let_def)

lemma started_fields:
  "running (started g)" "\<not> ask (promotion (started g))" "gameOver (started g) = None"
  "game (started g) = g" "suppressClickUntil (started g) = 0" "incrementMs (started g) = 2000"
  "whiteTimeMs (started g) = 180000" "blackTimeMs (started g) = 180000" "selected (started g) = None"
  "redoStack (started g) = []" "soundOn (started g)"
  by (simp_all add: run_defs base_defs Let_def)

lemma undo_fields:
  "chess_undo E (game s) = Some (m, g0) \<Longrightarrow> game (undo E s) = g0"
  "chess_undo E (game s) = Some (m, g0) \<Longrightarrow> redoStack (undo E s) = redoStack s @ [m]"
  by (simp_all add: undo_def Let_def bumpTick_def updateGameOverBanner_frame playSound_frame)

lemma fresh_handles:
  assumes "\<forall>t\<in>set (timers s). tid t \<le> lastId s"
  shows "\<forall>t\<in>set (timers (snd (setTimeout cb d s))). tid t \<le> lastId (snd (setTimeout cb d s))"
    and "\<forall>t\<in>set (timers (snd (setInterval cb d s))). tid t \<le> lastId (snd (setInterval cb d s))"
    and "\<forall>t\<in>set (timers (clearTimer i s)). tid t \<le> lastId (clearTimer i s)"
  using assms by (auto simp add: setTimeout_def setInterval_def clearTimer_def Let_def)

lemma find_snoc:
  "\<forall>y\<in>set xs. \<not> P y \<Longrightarrow> P x \<Longrightarrow> find P (xs @ [x]) = Some x"
  by (induction xs) simp_all

lemma fire_fresh:
  assumes "\<forall>t\<in>set ts. tid t \<noteq> i"
  shows "fire E i (s\<lparr>timers := ts @ [Timer i False d (RevealCb r)], gameOverTimeoutId := x\<rparr>)
         = s\<lparr>timers := ts, gameOver := Some r, gameOverTimeoutId := None\<rparr>"
proof -
  have "find (\<lambda>t. tid t = i) (ts @ [Timer i False d (RevealCb r)]) = Some (Timer i False d (RevealCb r))"
    using assms by (simp add: find_snoc)
  moreover have "filter (\<lambda>t. tid t \<noteq> i) ts = ts"
    using assms by (simp add: filter_id_conv)
  ultimately show ?thesis
    by (simp add: fire_def runCallback_def clearTimer_def)
qed

lemma started_timers:
  "timers (started g) = [Timer 1 True 100 TickCb]" "lastId (started g) = 1"
  "timerId (started g) = Some 1" "gameOverTimeoutId (started g) = None" "effects (started g) = []"
  by (simp_all add: run_defs base_defs Let_def)

lemma afterMoveUpdate_game: "game (afterMoveUpdate E m s) = game s"
  by (simp add: afterMoveUpdate_fields)

lemma reset_fields:
  assumes "\<not> chess_isGameOver E (chess_reset E (game s))"
  shows "timers (reset E s) = timers (pauseClocks s)"
    and "gameOver (reset E s) = None"
    and "game (reset E s) = chess_reset E (game s)"
    and "gameOverTimeoutId (reset E s) = gameOverTimeoutId s"
  using assms
  by (simp_all add: reset_def Let_def updateGameOverBanner_def stopConfetti_def bumpTick_def
        pauseClocks_def clearTimer_def split: option.splits)

lemma onFlag_timers:
  "timers (onFlag s) =
     timers (clearGameOverTimeout (pauseClocks s)) @
       [Timer (Suc (lastId s)) False 1500
          (RevealCb \<lparr>reason = Time, message = ''on time'',
                     winner = Some (if whiteTimeMs s \<le> 0 then B else W)\<rparr>)]"
  "gameOverTimeoutId (onFlag s) = Some (Suc (lastId s))"
  "\<not> truthy_id (timerId (onFlag s))"
  by (simp_all add: onFlag_def base_defs Let_def split: option.splits)

lemma no_reveal_after_clear:
  "\<not> revealPending s \<Longrightarrow> \<not> list_ex isReveal (timers (clearGameOverTimeout (pauseClocks s)))"
  by (auto simp add: revealPending_def clearGameOverTimeout_def pauseClocks_def clearTimer_def
        Let_def list_ex_iff split: option.splits)

lemma dismiss_timers:
  "gameOverTimeoutId s = Some (Suc n) \<Longrightarrow>
   timers (dismissGameOver s) = filter (\<lambda>t. tid t \<noteq> Suc n) (timers s)"
  by (simp add: dismissGameOver_def stopConfetti_def clearGameOverTimeout_def clearTimer_def
        truthy_id_def)

lemma dismiss_cancels_flag_reveal:
  assumes "\<not> revealPending s"
  shows "\<not> revealPending (dismissGameOver (onFlag s))"
  using no_reveal_after_clear [OF assms]
  by (simp add: revealPending_def dismiss_timers [OF onFlag_timers(2)] onFlag_timers(1)
        list_ex_iff)

lemma onFlag_game: "game (onFlag s) = game s"
  by (simp add: onFlag_def base_defs Let_def split: option.splits)

lemma reset_keeps_flag_reveal:
  assumes "\<not> chess_isGameOver E (chess_reset E (game s))"
  shows "revealPending (reset E (onFlag s))"
proof -
  have "timers (reset E (onFlag s)) = timers (pauseClocks (onFlag s))"
    using assms by (simp add: reset_fields onFlag_game)
  also have "\<dots> = timers (onFlag s)"
    using onFlag_timers(3) [of s] by (simp add: pauseClocks_def)
  finally show ?thesis
    by (simp add: revealPending_def onFlag_timers(1) isReveal_def)
qed

lemma mate_by_drop:
  "game (tryMove sample_engine ''d8'' ''h4'' (started PreMate)) = Mated"
  "timers (tryMove sample_engine ''d8'' ''h4'' (started PreMate)) =
     [Timer 2 False 1500
        (RevealCb \<lparr>reason = Checkmate, message = ''by checkmate'', winner = Some B\<rparr>)]"
  "gameOverTimeoutId (tryMove sample_engine ''d8'' ''h4'' (started PreMate)) = Some 2"
  "timerId (tryMove sample_engine ''d8'' ''h4'' (started PreMate)) = None"
  "gameOver (tryMove sample_engine ''d8'' ''h4'' (started PreMate)) = None"
  by (simp_all add: run_defs base_defs sample_simps Let_def numeral_2_eq_2)

lemma updateGameOverBanner_promotion:
  "promotion (updateGameOverBanner E s) = promotion s"
  by (simp add: updateGameOverBanner_def base_defs Let_def split: option.splits)

lemma afterMoveUpdate_promotion:
  "promotion (afterMoveUpdate E m s) = promotion s"
  by (simp add: afterMoveUpdate_def Let_def bumpTick_def playSound_def
        updateGameOverBanner_promotion)

lemma deselected_after_e4:
  "game (onSquareClick sample_engine 0 ''e7'' (onSquareClick sample_engine 0 ''e7''
      (tryMove sample_engine ''e2'' ''e4'' (started Initial)))) = AfterE4"
  "lastMoveSquares (onSquareClick sample_engine 0 ''e7'' (onSquareClick sample_engine 0 ''e7''
      (tryMove sample_engine ''e2'' ''e4'' (started Initial)))) = {}"
  "redoStack (onSquareClick sample_engine 0 ''e7'' (onSquareClick sample_engine 0 ''e7''
      (tryMove sample_engine ''e2'' ''e4'' (started Initial)))) = []"
  by (simp_all add: run_defs base_defs sample_simps Let_def)

lemma promote_cases:
  "\<not> ask (promotion s) \<or> \<not> truthy (prfrom (promotion s)) \<or> \<not> truthy (prto (promotion s)) \<or>
     prcolor (promotion s) = None \<Longrightarrow> promote E pc s = s"
  "ask (promotion s) \<Longrightarrow> prfrom (promotion s) = Some f \<Longrightarrow> f \<noteq> [] \<Longrightarrow>
   prto (promotion s) = Some t \<Longrightarrow> t \<noteq> [] \<Longrightarrow> prcolor (promotion s) \<noteq> None \<Longrightarrow>
   chess_move E (game s) f t (Some pc) = Some (res, g') \<Longrightarrow>
     promotion (promote E pc s) = \<lparr>ask = False, prcolor = None, prfrom = None, prto = None\<rparr>"
  "ask (promotion s) \<Longrightarrow> prfrom (promotion s) = Some f \<Longrightarrow> f \<noteq> [] \<Longrightarrow>
   prto (promotion s) = Some t \<Longrightarrow> t \<noteq> [] \<Longrightarrow> prcolor (promotion s) \<noteq> None \<Longrightarrow>
   chess_move E (game s) f t (Some pc) = None \<Longrightarrow> promote E pc s = s"
  by (auto simp add: promote_def truthy_def Let_def afterMoveUpdate_promotion)

lemma pending_after_reset:
  "game (reset sample_engine (tryMove sample_engine ''a7'' ''a8'' (started PromoReady))) = Initial"
  "promotion (reset sample_engine (tryMove sample_engine ''a7'' ''a8'' (started PromoReady))) =
     \<lparr>ask = True, prcolor = Some W, prfrom = Some ''a7'', prto = Some ''a8''\<rparr>"
  by (simp_all add: reset_def Let_def updateGameOverBanner_def stopConfetti_def bumpTick_def
        pauseClocks_def clearTimer_def truthy_id_def tryMove_def started_fields sample_simps
        requestPromotion_def mv_a8Q_def mk_move_def split: option.splits)

subsection \<open>C1: the commit protocol\<close>

text \<open>
  C1. Whenever one of the four paths applies a move (a click on a legal target of the
  selected square, a drop on a legal target, a promotion choice, a redo) and the engine
  accepts it, the session the path returns satisfies \<open>commit_post\<close>: the position is the
  one the engine returned, the redo stack is empty, the selection is none, the highlight is
  the set of the move's origin and destination, and the clocks differ from those before
  the operation only by the increment, added to the clock of the colour of the applied
  move when the increment is positive; the other clock is unchanged.
  The hypotheses of each conjunct are the conditions under which the path reaches its
  engine call and the engine returns a move.
\<close>

theorem commit_protocol:
  "(\<not> now < suppressClickUntil sa \<and> \<not> ask (promotion sa) \<and>
    \<not> chess_isGameOver E (game sa) \<and>
    gameOver sa = None \<and> running sa \<and> selected sa = Some cur \<and> cur \<noteq> [] \<and> cur \<noteq> name \<and>
    find (\<lambda>m. mto m = name) (chess_moves E (game sa) cur) = Some targeta \<and>
    CHR ''p'' \<notin> set (flags targeta) \<and>
    chess_move E (game sa) (mfrom targeta) (mto targeta) None = Some (resa, ga)
    \<longrightarrow> commit_post resa ga sa (onSquareClick E now name sa)) \<and>
   (\<not> ask (promotion sb) \<and> \<not> chess_isGameOver E (game sb) \<and> gameOver sb = None \<and>
    running sb \<and>
    find (\<lambda>m. mto m = dst) (chess_moves E (game sb) src) = Some targetb \<and>
    CHR ''p'' \<notin> set (flags targetb) \<and>
    chess_move E (game sb) (mfrom targetb) (mto targetb) None = Some (resb, gb)
    \<longrightarrow> commit_post resb gb sb (tryMove E src dst sb)) \<and>
   (ask (promotion sc) \<and> prfrom (promotion sc) = Some f \<and> f \<noteq> [] \<and>
    prto (promotion sc) = Some t \<and> t \<noteq> [] \<and> prcolor (promotion sc) \<noteq> None \<and>
    chess_move E (game sc) f t (Some pc) = Some (resc, gc)
    \<longrightarrow> commit_post resc gc sc (promote E pc sc)) \<and>
   (redoStack sd \<noteq> [] \<and>
    chess_move_san E (game sd) (san (last (redoStack sd))) = Some (resd, gd)
    \<longrightarrow> commit_post resd gd sd (redo E sd))"
proof (intro conjI impI)
  assume h: "\<not> now < suppressClickUntil sa \<and> \<not> ask (promotion sa) \<and>
    \<not> chess_isGameOver E (game sa) \<and>
    gameOver sa = None \<and> running sa \<and> selected sa = Some cur \<and> cur \<noteq> [] \<and> cur \<noteq> name \<and>
    find (\<lambda>m. mto m = name) (chess_moves E (game sa) cur) = Some targeta \<and>
    CHR ''p'' \<notin> set (flags targeta) \<and>
    chess_move E (game sa) (mfrom targeta) (mto targeta) None = Some (resa, ga)"
  then have "onSquareClick E now name sa =
      moveAndCommit E (mfrom targeta) (mto targeta) None sa"
    by (simp add: onSquareClick_def clickSelected_def)
  with h show "commit_post resa ga sa (onSquareClick E now name sa)"
    by (simp add: moveAndCommit_post)
next
  assume h: "\<not> ask (promotion sb) \<and> \<not> chess_isGameOver E (game sb) \<and> gameOver sb = None \<and>
    running sb \<and>
    find (\<lambda>m. mto m = dst) (chess_moves E (game sb) src) = Some targetb \<and>
    CHR ''p'' \<notin> set (flags targetb) \<and>
    chess_move E (game sb) (mfrom targetb) (mto targetb) None = Some (resb, gb)"
  then have "tryMove E src dst sb = moveAndCommit E (mfrom targetb) (mto targetb) None sb"
    by (simp add: tryMove_def)
  with h show "commit_post resb gb sb (tryMove E src dst sb)"
    by (simp add: moveAndCommit_post)
next
  assume h: "ask (promotion sc) \<and> prfrom (promotion sc) = Some f \<and> f \<noteq> [] \<and>
    prto (promotion sc) = Some t \<and> t \<noteq> [] \<and> prcolor (promotion sc) \<noteq> None \<and>
    chess_move E (game sc) f t (Some pc) = Some (resc, gc)"
  then have "promote E pc sc = afterMoveUpdate E resc
      (sc\<lparr>game := gc, promotion := \<lparr>ask = False, prcolor = None, prfrom = None, prto = None\<rparr>\<rparr>)"
    by (auto simp add: promote_def truthy_def Let_def)
  then show "commit_post resc gc sc (promote E pc sc)"
    using afterMoveUpdate_post
      [of resc "sc\<lparr>game := gc,
           promotion := \<lparr>ask = False, prcolor = None, prfrom = None, prto = None\<rparr>\<rparr>" E]
    by (simp add: commit_post_def)
next
  assume h: "redoStack sd \<noteq> [] \<and>
    chess_move_san E (game sd) (san (last (redoStack sd))) = Some (resd, gd)"
  then have "redo E sd =
      afterMoveUpdate E resd (sd\<lparr>redoStack := butlast (redoStack sd), game := gd\<rparr>)"
    by (simp add: redo_def Let_def)
  then show "commit_post resd gd sd (redo E sd)"
    using afterMoveUpdate_post
      [of resd "sd\<lparr>redoStack := butlast (redoStack sd), game := gd\<rparr>" E]
    by (simp add: commit_post_def)
qed

text \<open>
  The theorem on the sample engine with the 3+2 time control: 1. e4 by click, by drop and by
  redo, and the promotion a8=Q; after 1. e4 White has 182 s and Black 180 s.
\<close>

theorem commit_protocol_witness:
  "commit_post mv_e4 AfterE4 ((started Initial)\<lparr>selected := Some ''e2''\<rparr>)
     (onSquareClick sample_engine 0 ''e4'' ((started Initial)\<lparr>selected := Some ''e2''\<rparr>)) \<and>
   commit_post mv_e4 AfterE4 (started Initial) (tryMove sample_engine ''e2'' ''e4'' (started Initial)) \<and>
   commit_post mv_a8Q PromoDone (requestPromotion mv_a8Q (started PromoReady))
     (promote sample_engine CHR ''q'' (requestPromotion mv_a8Q (started PromoReady))) \<and>
   commit_post mv_e4 AfterE4 ((started Initial)\<lparr>redoStack := [mv_e4]\<rparr>)
     (redo sample_engine ((started Initial)\<lparr>redoStack := [mv_e4]\<rparr>)) \<and>
   whiteTimeMs (tryMove sample_engine ''e2'' ''e4'' (started Initial)) = 182000 \<and>
   blackTimeMs (tryMove sample_engine ''e2'' ''e4'' (started Initial)) = 180000"
  using commit_protocol [where E = sample_engine and now = 0 and name = "''e4''" and cur = "''e2''"
      and sa = "(started Initial)\<lparr>selected := Some ''e2''\<rparr>" and targeta = mv_e4
      and resa = mv_e4 and ga = AfterE4
      and sb = "started Initial" and src = "''e2''" and dst = "''e4''" and targetb = mv_e4
      and resb = mv_e4 and gb = AfterE4
      and sc = "requestPromotion mv_a8Q (started PromoReady)" and f = "''a7''" and t = "''a8''"
      and pc = "CHR ''q''" and resc = mv_a8Q and gc = PromoDone
      and sd = "(started Initial)\<lparr>redoStack := [mv_e4]\<rparr>" and resd = mv_e4 and gd = AfterE4]
  by (simp add: started_fields sample_simps requestPromotion_def commit_post_def
        mv_e4_def mv_a8Q_def mk_move_def)

subsection \<open>C2: undo followed by redo\<close>

text \<open>
  C2 as stated does not hold for the highlight. After 1. e4 Black selects e7 and taps it
  again, which empties the highlight; undo followed by redo then restores the position but
  leaves the highlight on e2 and e4, not empty as it was before the undo.
\<close>

theorem undo_redo_highlight_counterexample:
  "game (onSquareClick sample_engine 0 ''e7'' (onSquareClick sample_engine 0 ''e7''
      (tryMove sample_engine ''e2'' ''e4'' (started Initial)))) = AfterE4 \<and>
   lastMoveSquares (onSquareClick sample_engine 0 ''e7'' (onSquareClick sample_engine 0 ''e7''
      (tryMove sample_engine ''e2'' ''e4'' (started Initial)))) = {} \<and>
   game (redo sample_engine (undo sample_engine
      (onSquareClick sample_engine 0 ''e7'' (onSquareClick sample_engine 0 ''e7''
         (tryMove sample_engine ''e2'' ''e4'' (started Initial)))))) = AfterE4 \<and>
   lastMoveSquares (redo sample_engine (undo sample_engine
      (onSquareClick sample_engine 0 ''e7'' (onSquareClick sample_engine 0 ''e7''
         (tryMove sample_engine ''e2'' ''e4'' (started Initial)))))) = {''e2'', ''e4''}"
  by (simp add: deselected_after_e4 undo_fields redo_def Let_def afterMoveUpdate_fields
        sample_simps mv_e4_def mk_move_def)

text \<open>
  C2, amended. In any session, if the engine reverts a move \<open>m\<close> on undo and, asked to replay
  the notation of \<open>m\<close> from the reverted position, applies a move with the same origin and
  destination that leads back to the position before the undo (the engine's part of the
  round trip), then undo followed immediately by redo restores the board position and sets
  the last-move highlight to the pair of \<open>m\<close>. The highlight is thus the one before the undo
  exactly when it showed \<open>m\<close> then, as it does right after the commit of \<open>m\<close>. Nothing in
  the statement depends on the move being a promotion or not.
\<close>

theorem undo_redo_restores:
  assumes "chess_undo E (game s) = Some (m, g0)"
    and "chess_move_san E g0 (san m) = Some (m', game s)"
    and "mfrom m' = mfrom m" and "mto m' = mto m"
  shows "game (redo E (undo E s)) = game s \<and>
         lastMoveSquares (redo E (undo E s)) = {mfrom m, mto m} \<and>
         ((lastMoveSquares (redo E (undo E s)) = lastMoveSquares s) =
          (lastMoveSquares s = {mfrom m, mto m})) \<and>
         (\<forall>s0. s = afterMoveUpdate E m s0 \<longrightarrow>
            lastMoveSquares (redo E (undo E s)) = lastMoveSquares s)"
proof -
  let ?u = "undo E s"
  have g: "game ?u = g0" and r: "redoStack ?u = redoStack s @ [m]"
    using assms(1) by (simp_all add: undo_fields)
  have "redo E ?u = afterMoveUpdate E m' (?u\<lparr>redoStack := redoStack s, game := game s\<rparr>)"
    using assms(2) by (simp add: redo_def Let_def g r)
  then have "game (redo E ?u) = game s"
    and h: "lastMoveSquares (redo E ?u) = {mfrom m, mto m}"
    using assms(3,4) by (simp_all add: afterMoveUpdate_fields)
  then show ?thesis
    by (auto simp add: afterMoveUpdate_fields)
qed

text \<open>
  The theorem on the sample engine: 1. e4, undo, redo, right after the commit (the
  highlight is restored) and after a deselection on e7 (it is not).
\<close>

theorem undo_redo_restores_witness:
  "game (redo sample_engine (undo sample_engine
           (afterMoveUpdate sample_engine mv_e4 ((started Initial)\<lparr>game := AfterE4\<rparr>)))) =
     AfterE4 \<and>
   lastMoveSquares (redo sample_engine (undo sample_engine
           (afterMoveUpdate sample_engine mv_e4 ((started Initial)\<lparr>game := AfterE4\<rparr>)))) =
     lastMoveSquares (afterMoveUpdate sample_engine mv_e4 ((started Initial)\<lparr>game := AfterE4\<rparr>)) \<and>
   lastMoveSquares (redo sample_engine (undo sample_engine
      (onSquareClick sample_engine 0 ''e7'' (onSquareClick sample_engine 0 ''e7''
         (tryMove sample_engine ''e2'' ''e4'' (started Initial)))))) \<noteq>
     lastMoveSquares (onSquareClick sample_engine 0 ''e7'' (onSquareClick sample_engine 0 ''e7''
         (tryMove sample_engine ''e2'' ''e4'' (started Initial))))"
  using undo_redo_restores
      [of sample_engine
        "afterMoveUpdate sample_engine mv_e4 ((started Initial)\<lparr>game := AfterE4\<rparr>)"
        mv_e4 Initial mv_e4]
    undo_redo_restores
      [of sample_engine
        "onSquareClick sample_engine 0 ''e7'' (onSquareClick sample_engine 0 ''e7''
           (tryMove sample_engine ''e2'' ''e4'' (started Initial)))"
        mv_e4 Initial mv_e4]
  by (simp add: deselected_after_e4 afterMoveUpdate_fields sample_simps mv_e4_def mk_move_def)

subsection \<open>C3: what one clock tick does\<close>

text \<open>
  C3. While the clock is running, a tick that finds a promotion pending changes nothing at
  all (so neither time is decremented, no flag-fall is checked and \<open>running\<close> stays true).
  Any other tick subtracts the tick period of 100 ms from the remaining time of the side
  the engine reports as side to move, leaves the other side's time as it was, and then
  checks flag-fall: when one of the two times is now at or below zero the result is
  \<open>onFlag\<close> of the decremented session, otherwise it is the decremented session itself.
\<close>

theorem tick_step:
  assumes "running s"
  shows "(ask (promotion s) \<longrightarrow> tick E s = s \<and> running (tick E s)) \<and>
     (\<not> ask (promotion s) \<longrightarrow>
        (chess_turn E (game s) = W \<longrightarrow>
           whiteTimeMs (tick E s) = whiteTimeMs s - 100 \<and>
           blackTimeMs (tick E s) = blackTimeMs s \<and>
           tick E s = (if whiteTimeMs s - 100 \<le> 0 \<or> blackTimeMs s \<le> 0
                       then onFlag (s\<lparr>whiteTimeMs := whiteTimeMs s - 100\<rparr>)
                       else s\<lparr>whiteTimeMs := whiteTimeMs s - 100\<rparr>)) \<and>
        (chess_turn E (game s) = B \<longrightarrow>
           blackTimeMs (tick E s) = blackTimeMs s - 100 \<and>
           whiteTimeMs (tick E s) = whiteTimeMs s \<and>
           tick E s = (if whiteTimeMs s \<le> 0 \<or> blackTimeMs s - 100 \<le> 0
                       then onFlag (s\<lparr>blackTimeMs := blackTimeMs s - 100\<rparr>)
                       else s\<lparr>blackTimeMs := blackTimeMs s - 100\<rparr>)))"
  using assms
  by (cases "chess_turn E (game s)") (simp_all add: tick_def Let_def onFlag_times)

text \<open>
  The theorem at three running sessions with 180 s on each clock: White to move, Black to
  move, and a promotion pending on a7-a8.
\<close>

theorem tick_step_witness:
  "whiteTimeMs (tick sample_engine (started Initial)) = 179900 \<and>
   blackTimeMs (tick sample_engine (started Initial)) = 180000 \<and>
   whiteTimeMs (tick sample_engine (started AfterE4)) = 180000 \<and>
   blackTimeMs (tick sample_engine (started AfterE4)) = 179900 \<and>
   tick sample_engine (requestPromotion mv_a8Q (started PromoReady)) =
     requestPromotion mv_a8Q (started PromoReady) \<and>
   running (tick sample_engine (requestPromotion mv_a8Q (started PromoReady)))"
  using tick_step [of "started Initial" sample_engine]
    tick_step [of "started AfterE4" sample_engine]
    tick_step [of "requestPromotion mv_a8Q (started PromoReady)" sample_engine]
  by (simp add: started_fields sample_simps requestPromotion_def)

subsection \<open>C4: who is recorded as the winner\<close>

text \<open>
  C4. In a session whose timer handles are all at most the last handle issued (which
  \<open>setTimeout\<close>, \<open>setInterval\<close> and \<open>clearTimer\<close> preserve, lemma \<open>fresh_handles\<close>):
  \<^item> at checkmate, \<open>updateGameOverBanner\<close> does not set the record at once; it schedules a
    timer, and when that timer fires the record has reason checkmate and as winner the
    side opposite to the engine's side to move, that is the side that gave mate;
  \<^item> at flag-fall, \<open>onFlag\<close> likewise defers the record; when its timer fires the winner
    is the side whose remaining time is still positive;
  \<^item> at stalemate or any other draw, \<open>updateGameOverBanner\<close> sets the record at once, with
    no winner, emits no effect (no confetti, no cue) and schedules no timer.
\<close>

theorem winner_attribution:
  assumes fresh: "\<forall>t\<in>set (timers s). tid t \<le> lastId s"
  shows
  "(chess_isGameOver E (game s) \<and> chess_isCheckmate E (game s) \<longrightarrow>
      gameOver (updateGameOverBanner E s) = gameOver s \<and>
      gameOverTimeoutId (updateGameOverBanner E s) = Some (Suc (lastId s)) \<and>
      gameOver (fire E (Suc (lastId s)) (updateGameOverBanner E s)) =
        Some \<lparr>reason = Checkmate, message = ''by checkmate'',
              winner = Some (opposite (chess_turn E (game s)))\<rparr>) \<and>
   (whiteTimeMs s \<le> 0 \<or> blackTimeMs s \<le> 0 \<longrightarrow>
      gameOver (onFlag s) = gameOver s \<and>
      gameOverTimeoutId (onFlag s) = Some (Suc (lastId s)) \<and>
      (0 < whiteTimeMs s \<longrightarrow>
         gameOver (fire E (Suc (lastId s)) (onFlag s)) =
           Some \<lparr>reason = Time, message = ''on time'', winner = Some W\<rparr>) \<and>
      (0 < blackTimeMs s \<longrightarrow>
         gameOver (fire E (Suc (lastId s)) (onFlag s)) =
           Some \<lparr>reason = Time, message = ''on time'', winner = Some B\<rparr>)) \<and>
   (chess_isGameOver E (game s) \<and> \<not> chess_isCheckmate E (game s) \<longrightarrow>
      gameOver (updateGameOverBanner E s) =
        Some \<lparr>reason = (if chess_isStalemate E (game s) then Stalemate else Draw),
              message = (if chess_isStalemate E (game s) then ''by stalemate'' else ''draw''),
              winner = None\<rparr> \<and>
      effects (updateGameOverBanner E s) = effects s \<and>
      lastId (updateGameOverBanner E s) = lastId s \<and>
      gameOverTimeoutId (updateGameOverBanner E s) = gameOverTimeoutId s)"
proof (intro conjI impI)
  have f1: "\<And>P. \<forall>t\<in>set (filter P (timers s)). tid t \<noteq> Suc (lastId s)"
    using fresh by fastforce
  have f2: "\<And>P Q. \<forall>t\<in>set (filter P (filter Q (timers s))). tid t \<noteq> Suc (lastId s)"
    using fresh by fastforce
  have f0: "\<forall>t\<in>set (timers s). tid t \<noteq> Suc (lastId s)"
    using fresh by fastforce
  note ff = f0 f1 f2
  {
    assume h: "chess_isGameOver E (game s) \<and> chess_isCheckmate E (game s)"
    show "gameOver (updateGameOverBanner E s) = gameOver s"
      using h by (simp add: updateGameOverBanner_def base_defs Let_def split: option.splits)
    show "gameOverTimeoutId (updateGameOverBanner E s) = Some (Suc (lastId s))"
      using h by (simp add: updateGameOverBanner_def base_defs Let_def split: option.splits)
    show "gameOver (fire E (Suc (lastId s)) (updateGameOverBanner E s)) =
        Some \<lparr>reason = Checkmate, message = ''by checkmate'',
              winner = Some (opposite (chess_turn E (game s)))\<rparr>"
      using h ff
      by (cases "chess_turn E (game s)")
         (simp_all add: updateGameOverBanner_def base_defs Let_def opposite_def fire_def
            runCallback_def find_snoc split: option.splits)
  }
  {
    assume h: "whiteTimeMs s \<le> 0 \<or> blackTimeMs s \<le> 0"
    show "gameOver (onFlag s) = gameOver s"
      by (simp add: onFlag_def base_defs Let_def split: option.splits)
    show "gameOverTimeoutId (onFlag s) = Some (Suc (lastId s))"
      by (simp add: onFlag_def base_defs Let_def split: option.splits)
    {
      assume "0 < whiteTimeMs s"
      then show "gameOver (fire E (Suc (lastId s)) (onFlag s)) =
           Some \<lparr>reason = Time, message = ''on time'', winner = Some W\<rparr>"
        using h ff
        by (simp add: onFlag_def base_defs Let_def fire_def runCallback_def find_snoc
              split: option.splits)
    }
    {
      assume "0 < blackTimeMs s"
      then show "gameOver (fire E (Suc (lastId s)) (onFlag s)) =
           Some \<lparr>reason = Time, message = ''on time'', winner = Some B\<rparr>"
        using h ff
        by (simp add: onFlag_def base_defs Let_def fire_def runCallback_def find_snoc
              split: option.splits)
    }
  }
  {
    assume h: "chess_isGameOver E (game s) \<and> \<not> chess_isCheckmate E (game s)"
    show "gameOver (updateGameOverBanner E s) =
        Some \<lparr>reason = (if chess_isStalemate E (game s) then Stalemate else Draw),
              message = (if chess_isStalemate E (game s) then ''by stalemate'' else ''draw''),
              winner = None\<rparr>"
      using h by (simp add: updateGameOverBanner_def base_defs Let_def split: option.splits)
    show "effects (updateGameOverBanner E s) = effects s"
      using h by (simp add: updateGameOverBanner_def base_defs Let_def split: option.splits)
    show "lastId (updateGameOverBanner E s) = lastId s"
      using h by (simp add: updateGameOverBanner_def base_defs Let_def split: option.splits)
    show "gameOverTimeoutId (updateGameOverBanner E s) = gameOverTimeoutId s"
      using h by (simp add: updateGameOverBanner_def base_defs Let_def split: option.splits)
  }
qed

text \<open>
  The theorem on the sample engine: Black has mated, White's flag has fallen, Black's flag
  has fallen, a stalemate, and bare kings.
\<close>

theorem winner_attribution_witness:
  "gameOver (fire sample_engine 2 (updateGameOverBanner sample_engine ((started Initial)\<lparr>game := Mated\<rparr>)))
     = Some \<lparr>reason = Checkmate, message = ''by checkmate'', winner = Some B\<rparr> \<and>
   gameOver (fire sample_engine 2 (onFlag ((started Initial)\<lparr>whiteTimeMs := 0\<rparr>)))
     = Some \<lparr>reason = Time, message = ''on time'', winner = Some B\<rparr> \<and>
   gameOver (fire sample_engine 2 (onFlag ((started Initial)\<lparr>blackTimeMs := 0\<rparr>)))
     = Some \<lparr>reason = Time, message = ''on time'', winner = Some W\<rparr> \<and>
   gameOver (updateGameOverBanner sample_engine ((started Initial)\<lparr>game := StalematePos\<rparr>))
     = Some \<lparr>reason = Stalemate, message = ''by stalemate'', winner = None\<rparr> \<and>
   gameOver (updateGameOverBanner sample_engine ((started Initial)\<lparr>game := DrawPos\<rparr>))
     = Some \<lparr>reason = Draw, message = ''draw'', winner = None\<rparr> \<and>
   effects (updateGameOverBanner sample_engine ((started Initial)\<lparr>game := DrawPos\<rparr>)) = []"
  using winner_attribution [of "(started Initial)\<lparr>game := Mated\<rparr>" sample_engine]
    winner_attribution [of "(started Initial)\<lparr>whiteTimeMs := 0\<rparr>" sample_engine]
    winner_attribution [of "(started Initial)\<lparr>blackTimeMs := 0\<rparr>" sample_engine]
    winner_attribution [of "(started Initial)\<lparr>game := StalematePos\<rparr>" sample_engine]
    winner_attribution [of "(started Initial)\<lparr>game := DrawPos\<rparr>" sample_engine]
  by (simp add: started_fields started_timers sample_simps opposite_def numeral_2_eq_2)

subsection \<open>C5: which paths check that the game is live and the clock runs\<close>

text \<open>
  C5 as stated does not hold: redo applies a move while the clock is stopped. Black mates
  by a drop (which stops the clock), the move is undone, and redo replays it although
  \<open>running\<close> is false.
\<close>

theorem redo_ignores_preconditions_counterexample:
  "\<not> running (undo sample_engine (tryMove sample_engine ''d8'' ''h4'' (started PreMate))) \<and>
   game (undo sample_engine (tryMove sample_engine ''d8'' ''h4'' (started PreMate))) = PreMate \<and>
   game (redo sample_engine (undo sample_engine (tryMove sample_engine ''d8'' ''h4'' (started PreMate))))
     = Mated"
  by (simp add: run_defs base_defs sample_simps Let_def)

text \<open>
  C5, amended. The click and the drop resolutions return the session unchanged (no state
  change, no effect) whenever a promotion is pending, the engine reports the game over,
  the game-over record is set or the clock is not running, whatever the destination.
  When these checks pass, a click on a square that is neither a legal target of the
  selection nor a piece of the side to move, and a drop on a square that is not a legal
  target, emit the illegal cue (the haptic pulse, and the sound when sound is on) and
  clear the selection. Redo and the promotion choice check neither the clock nor the
  game-over state: they apply the move whenever the engine accepts it.
\<close>

theorem move_gating:
  "(ask (promotion s) \<or> chess_isGameOver E (game s) \<or> gameOver s \<noteq> None \<or> \<not> running s \<longrightarrow>
      onSquareClick E now name s = s \<and> tryMove E src dst s = s) \<and>
   (\<not> now < suppressClickUntil s \<and> \<not> ask (promotion s) \<and> \<not> chess_isGameOver E (game s) \<and>
    gameOver s = None \<and> running s \<longrightarrow>
      (selected s = Some cur \<and> cur \<noteq> [] \<and> cur \<noteq> name \<and>
       find (\<lambda>m. mto m = name) (chess_moves E (game s) cur) = None \<and>
       (case chess_get E (game s) name of
          None \<Rightarrow> True | Some p \<Rightarrow> pcolor p \<noteq> chess_turn E (game s)) \<longrightarrow>
         effects (onSquareClick E now name s) =
           effects s @ [Vibrate [30]] @ (if soundOn s then [Audio IllegalSnd] else []) \<and>
         selected (onSquareClick E now name s) = None) \<and>
      (find (\<lambda>m. mto m = dst) (chess_moves E (game s) src) = None \<longrightarrow>
         effects (tryMove E src dst s) =
           effects s @ [Vibrate [30]] @ (if soundOn s then [Audio IllegalSnd] else []) \<and>
         selected (tryMove E src dst s) = None)) \<and>
   (redoStack s \<noteq> [] \<and>
    chess_move_san E (game s) (san (last (redoStack s))) = Some (res, g') \<longrightarrow>
      game (redo E s) = g') \<and>
   (ask (promotion s) \<and> prfrom (promotion s) = Some f \<and> f \<noteq> [] \<and>
    prto (promotion s) = Some t \<and> t \<noteq> [] \<and> prcolor (promotion s) \<noteq> None \<and>
    chess_move E (game s) f t (Some pc) = Some (res, g') \<longrightarrow>
      game (promote E pc s) = g')"
proof (intro conjI impI)
  assume "ask (promotion s) \<or> chess_isGameOver E (game s) \<or> gameOver s \<noteq> None \<or> \<not> running s"
  then show "onSquareClick E now name s = s" and "tryMove E src dst s = s"
    by (auto simp add: onSquareClick_def tryMove_def)
next
  assume g: "\<not> now < suppressClickUntil s \<and> \<not> ask (promotion s) \<and>
    \<not> chess_isGameOver E (game s) \<and> gameOver s = None \<and> running s"
  {
    assume h: "selected s = Some cur \<and> cur \<noteq> [] \<and> cur \<noteq> name \<and>
       find (\<lambda>m. mto m = name) (chess_moves E (game s) cur) = None \<and>
       (case chess_get E (game s) name of
          None \<Rightarrow> True | Some p \<Rightarrow> pcolor p \<noteq> chess_turn E (game s))"
    then have "onSquareClick E now name s = clearSelection (playSound IllegalSnd s)"
      using g by (simp add: onSquareClick_def clickSelected_def split: option.splits)
    then show "effects (onSquareClick E now name s) =
           effects s @ [Vibrate [30]] @ (if soundOn s then [Audio IllegalSnd] else [])"
      and "selected (onSquareClick E now name s) = None"
      by (simp_all add: clearSelection_def bumpTick_def playSound_def)
  }
  {
    assume "find (\<lambda>m. mto m = dst) (chess_moves E (game s) src) = None"
    then have "tryMove E src dst s = clearSelection (playSound IllegalSnd s)"
      using g by (simp add: tryMove_def)
    then show "effects (tryMove E src dst s) =
           effects s @ [Vibrate [30]] @ (if soundOn s then [Audio IllegalSnd] else [])"
      and "selected (tryMove E src dst s) = None"
      by (simp_all add: clearSelection_def bumpTick_def playSound_def)
  }
next
  assume "redoStack s \<noteq> [] \<and>
    chess_move_san E (game s) (san (last (redoStack s))) = Some (res, g')"
  then show "game (redo E s) = g'"
    by (simp add: redo_def Let_def afterMoveUpdate_game)
next
  assume h: "ask (promotion s) \<and> prfrom (promotion s) = Some f \<and> f \<noteq> [] \<and>
    prto (promotion s) = Some t \<and> t \<noteq> [] \<and> prcolor (promotion s) \<noteq> None \<and>
    chess_move E (game s) f t (Some pc) = Some (res, g')"
  then have "\<not> (\<not> ask (promotion s) \<or> \<not> truthy (prfrom (promotion s)) \<or>
      \<not> truthy (prto (promotion s)) \<or> prcolor (promotion s) = None)"
    by (simp add: truthy_def)
  with h show "game (promote E pc s) = g'"
    by (auto simp add: promote_def Let_def afterMoveUpdate_game)
qed

text \<open>
  The theorem on the sample engine: a click and a drop before the clock is started, a click
  and a drop on e5 with e2 selected, a redo and a promotion choice with the clock stopped.
\<close>

theorem move_gating_witness:
  "onSquareClick sample_engine 0 ''e2'' (setTimeControl 3 2 (newSession Initial))
     = setTimeControl 3 2 (newSession Initial) \<and>
   tryMove sample_engine ''e2'' ''e5'' (setTimeControl 3 2 (newSession Initial))
     = setTimeControl 3 2 (newSession Initial) \<and>
   effects (onSquareClick sample_engine 0 ''e5'' ((started Initial)\<lparr>selected := Some ''e2''\<rparr>))
     = [Vibrate [30], Audio IllegalSnd] \<and>
   effects (tryMove sample_engine ''e2'' ''e5'' (started Initial)) = [Vibrate [30], Audio IllegalSnd] \<and>
   game (redo sample_engine ((setTimeControl 3 2 (newSession Initial))\<lparr>redoStack := [mv_e4]\<rparr>))
     = AfterE4 \<and>
   game (promote sample_engine CHR ''q''
           (requestPromotion mv_a8Q (setTimeControl 3 2 (newSession PromoReady)))) = PromoDone"
  using move_gating [where s = "setTimeControl 3 2 (newSession Initial)" and E = sample_engine
      and now = 0 and name = "''e2''" and src = "''e2''" and dst = "''e5''"]
    move_gating [where s = "(started Initial)\<lparr>selected := Some ''e2''\<rparr>" and E = sample_engine
      and now = 0 and name = "''e5''" and cur = "''e2''"]
    move_gating [where s = "started Initial" and E = sample_engine
      and now = 0 and src = "''e2''" and dst = "''e5''"]
    move_gating [where s = "(setTimeControl 3 2 (newSession Initial))\<lparr>redoStack := [mv_e4]\<rparr>"
      and E = sample_engine and res = mv_e4 and g' = AfterE4]
    move_gating [where s = "requestPromotion mv_a8Q (setTimeControl 3 2 (newSession PromoReady))"
      and E = sample_engine and f = "''a7''" and t = "''a8''" and pc = "CHR ''q''"
      and res = mv_a8Q and g' = PromoDone]
  by (simp add: started_fields started_timers sample_simps requestPromotion_def mv_e4_def
        mv_a8Q_def mk_move_def setTimeControl_def newSession_def base_defs Let_def)

subsection \<open>C6: cancelling the deferred game-over record\<close>

text \<open>
  C6, at a concrete run. Black mates by dropping the queen on h4; the reveal is scheduled
  under handle 2. A reset follows before the timer fires: the record is empty and the
  board is the starting position, but the timer is still registered, and when it fires the
  checkmate record of the previous game appears over the new game. After a dismiss
  instead of the reset, nothing is registered under handle 2 and the record stays empty.

  In general (lemmas \<open>dismiss_cancels_flag_reveal\<close> and \<open>reset_keeps_flag_reveal\<close>), after a
  flag-fall \<open>dismissGameOver\<close> leaves no reveal timer registered, while \<open>reset\<close> leaves the
  one that \<open>onFlag\<close> scheduled.
\<close>

theorem stale_record_after_reset:
  "gameOverTimeoutId (tryMove sample_engine ''d8'' ''h4'' (started PreMate)) = Some 2 \<and>
   gameOver (reset sample_engine (tryMove sample_engine ''d8'' ''h4'' (started PreMate))) = None \<and>
   game (fire sample_engine 2
           (reset sample_engine (tryMove sample_engine ''d8'' ''h4'' (started PreMate)))) = Initial \<and>
   gameOver (fire sample_engine 2
           (reset sample_engine (tryMove sample_engine ''d8'' ''h4'' (started PreMate))))
     = Some \<lparr>reason = Checkmate, message = ''by checkmate'', winner = Some B\<rparr> \<and>
   gameOver (fire sample_engine 2
           (dismissGameOver (tryMove sample_engine ''d8'' ''h4'' (started PreMate)))) = None"
  by (simp add: mate_by_drop dismissGameOver_def stopConfetti_def clearGameOverTimeout_def
        reset_fields sample_simps fire_def runCallback_def clearTimer_def pauseClocks_def
        truthy_id_def Let_def)

text \<open>
  In short, at that run: the reset has emptied the record, and the timer of the finished
  game fills it again.
\<close>

theorem stale_record_after_reset_witness:
  "gameOver (reset sample_engine (tryMove sample_engine ''d8'' ''h4'' (started PreMate))) = None \<and>
   gameOver (fire sample_engine 2
           (reset sample_engine (tryMove sample_engine ''d8'' ''h4'' (started PreMate)))) \<noteq> None"
  using stale_record_after_reset by simp

subsection \<open>C7: when a press sets the selection\<close>

text \<open>
  C7 as stated does not hold for the touch modality: a touch press on a piece of the side
  to move sets the selection at once.
\<close>

theorem touch_press_selects_counterexample:
  "selected (started Initial) = None \<and>
   selected (onPieceTouchStart sample_engine ''e2'' 1 10 10 (started Initial)) = Some ''e2''"
  by (simp add: run_defs base_defs sample_simps Let_def onPieceTouchStart_def)

text \<open>
  C7, amended. A pointer press and a mouse press never change the selection. During a
  pointer or mouse drag the selection is set, to the source square, exactly by the first
  move event whose distance from the press point exceeds 4; any other move event leaves it
  as it is, and so does a release of a drag that never moved, in all three modalities.
  A touch press on a piece of the side to move (outside the case of a piece without legal
  moves while in check) sets the selection to the pressed square immediately, and a touch
  move never changes it.
\<close>

theorem selection_on_drag_start:
  "selected (onPiecePointerDown E sq button pointerType x y s) = selected s \<and>
   selected (onMouseDownPiece E sq button x y s) = selected s \<and>
   (touchDrag s = Some d \<longrightarrow>
      selected (onGlobalPointerMove x y over s) =
        (if \<not> moved d \<and> 4 < hypot (x - startX d) (y - startY d) then Some (dfrom d)
         else selected s) \<and>
      selected (onGlobalMouseMove x y over s) =
        (if \<not> moved d \<and> 4 < hypot (x - startX d) (y - startY d) then Some (dfrom d)
         else selected s) \<and>
      (\<not> moved d \<longrightarrow>
         selected (onGlobalPointerUp E now s) = selected s \<and>
         selected (onGlobalMouseUp E now s) = selected s \<and>
         selected (onGlobalTouchEnd E now s) = selected s)) \<and>
   (touchDrag s = None \<longrightarrow>
      onGlobalPointerMove x y over s = s \<and> onGlobalMouseMove x y over s = s) \<and>
   selected (onGlobalTouchMove ntouches x y over s) = selected s \<and>
   (ntouches = 1 \<and> \<not> ask (promotion s) \<and> \<not> chess_isGameOver E (game s) \<and> gameOver s = None \<and>
    chess_get E (game s) sq = Some pc \<and> pcolor pc = chess_turn E (game s) \<and>
    \<not> (chess_isCheck E (game s) \<and> chess_moves E (game s) sq = []) \<longrightarrow>
      selected (onPieceTouchStart E sq ntouches x y s) = Some sq)"
proof (intro conjI impI)
  show "selected (onPiecePointerDown E sq button pointerType x y s) = selected s"
    by (simp add: onPiecePointerDown_def base_defs Let_def split: option.splits)
  show "selected (onMouseDownPiece E sq button x y s) = selected s"
    by (simp add: onMouseDownPiece_def base_defs Let_def split: option.splits)
  show "selected (onGlobalTouchMove ntouches x y over s) = selected s"
    by (simp add: onGlobalTouchMove_def split: option.splits)
  {
    assume "touchDrag s = None"
    then show "onGlobalPointerMove x y over s = s" and "onGlobalMouseMove x y over s = s"
      by (simp_all add: onGlobalPointerMove_def onGlobalMouseMove_def)
  }
  {
    assume d: "touchDrag s = Some d"
    then show "selected (onGlobalPointerMove x y over s) =
        (if \<not> moved d \<and> 4 < hypot (x - startX d) (y - startY d) then Some (dfrom d)
         else selected s)"
      by (simp add: onGlobalPointerMove_def)
    from d show "selected (onGlobalMouseMove x y over s) =
        (if \<not> moved d \<and> 4 < hypot (x - startX d) (y - startY d) then Some (dfrom d)
         else selected s)"
      by (simp add: onGlobalMouseMove_def)
    assume "\<not> moved d"
    with d show "selected (onGlobalPointerUp E now s) = selected s"
      and "selected (onGlobalMouseUp E now s) = selected s"
      and "selected (onGlobalTouchEnd E now s) = selected s"
      by (simp_all add: onGlobalPointerUp_def onGlobalMouseUp_def onGlobalTouchEnd_def release_def)
  }
  {
    assume "ntouches = 1 \<and> \<not> ask (promotion s) \<and> \<not> chess_isGameOver E (game s) \<and>
      gameOver s = None \<and> chess_get E (game s) sq = Some pc \<and> pcolor pc = chess_turn E (game s) \<and>
      \<not> (chess_isCheck E (game s) \<and> chess_moves E (game s) sq = [])"
    then show "selected (onPieceTouchStart E sq ntouches x y s) = Some sq"
      by (auto simp add: onPieceTouchStart_def Let_def)
  }
qed

text \<open>
  The theorem on the sample engine: presses on e2 at (10, 10), a move to (12, 12), which is
  within the threshold, a move to (13, 14), at distance 5, and a release without a move.
\<close>

theorem selection_on_drag_start_witness:
  "selected (onPiecePointerDown sample_engine ''e2'' 0 ''touch'' 10 10 (started Initial)) = None \<and>
   selected (onMouseDownPiece sample_engine ''e2'' 0 10 10 (started Initial)) = None \<and>
   selected (onGlobalPointerMove 12 12 (Some ''e2'')
      ((started Initial)\<lparr>touchDrag := Some (newDrag ''e2'' 10 10)\<rparr>)) = None \<and>
   selected (onGlobalPointerMove 13 14 (Some ''e3'')
      ((started Initial)\<lparr>touchDrag := Some (newDrag ''e2'' 10 10)\<rparr>)) = Some ''e2'' \<and>
   selected (onGlobalMouseMove 13 14 (Some ''e3'')
      ((started Initial)\<lparr>touchDrag := Some (newDrag ''e2'' 10 10)\<rparr>)) = Some ''e2'' \<and>
   selected (onGlobalPointerUp sample_engine 0
      ((started Initial)\<lparr>touchDrag := Some (newDrag ''e2'' 10 10)\<rparr>)) = None \<and>
   selected (onPieceTouchStart sample_engine ''e2'' 1 10 10 (started Initial)) = Some ''e2''"
  using selection_on_drag_start [where E = sample_engine and sq = "''e2''" and button = 0
      and pointerType = "''touch''" and x = 10 and y = 10 and s = "started Initial"
      and ntouches = 1 and pc = "mk_piece CHR ''p'' W"]
    selection_on_drag_start [where E = sample_engine and x = 12 and y = 12 and over = "Some ''e2''"
      and s = "(started Initial)\<lparr>touchDrag := Some (newDrag ''e2'' 10 10)\<rparr>"
      and d = "newDrag ''e2'' 10 10" and now = 0]
    selection_on_drag_start [where E = sample_engine and x = 13 and y = 14 and over = "Some ''e3''"
      and s = "(started Initial)\<lparr>touchDrag := Some (newDrag ''e2'' 10 10)\<rparr>"
      and d = "newDrag ''e2'' 10 10"]
  by (simp add: started_fields sample_simps mk_piece_def newDrag_def hypot_gt_4)

subsection \<open>C8: a tap while nothing is selected\<close>

text \<open>
  C8. Let the click be one the resolver processes (outside the suppression window, no
  promotion pending, game not over, clock running), with nothing selected, on a square
  holding a piece of the side to move. Unless the side to move is in check and the piece
  has no legal move, the click selects the square and changes nothing else. In that
  excepted case the selection stays none, the check-flash is raised and the illegal cue is
  emitted (haptic pulse, and the sound when sound is on); the pointer press that precedes
  the click on a touch device does the same and starts no drag.
\<close>

theorem idle_tap_selects:
  assumes "\<not> now < suppressClickUntil s" and "\<not> ask (promotion s)"
    and "\<not> chess_isGameOver E (game s)" and "gameOver s = None" and "running s"
    and "selected s = None"
    and "chess_get E (game s) name = Some pc" and "pcolor pc = chess_turn E (game s)"
  shows
  "(\<not> (chess_isCheck E (game s) \<and> chess_moves E (game s) name = []) \<longrightarrow>
      onSquareClick E now name s = s\<lparr>selected := Some name\<rparr>) \<and>
   (chess_isCheck E (game s) \<and> chess_moves E (game s) name = [] \<longrightarrow>
      selected (onSquareClick E now name s) = None \<and>
      checkFlash (onSquareClick E now name s) \<and>
      effects (onSquareClick E now name s) =
        effects s @ [Vibrate [30]] @ (if soundOn s then [Audio IllegalSnd] else []) \<and>
      (button = 0 \<and> pointerType \<noteq> ''mouse'' \<longrightarrow>
         selected (onPiecePointerDown E name button pointerType x y s) = None \<and>
         touchDrag (onPiecePointerDown E name button pointerType x y s) = touchDrag s \<and>
         checkFlash (onPiecePointerDown E name button pointerType x y s) \<and>
         effects (onPiecePointerDown E name button pointerType x y s) =
           effects s @ [Vibrate [30]] @ (if soundOn s then [Audio IllegalSnd] else [])))"
  using assms
  by (auto simp add: onSquareClick_def clickIdle_def onPiecePointerDown_def base_defs Let_def)

text \<open>
  The theorem on the sample engine: a tap on e2 in the starting position; with Black in
  check by the queen on h5, a tap on g7 (which can block on g6) and a tap on a7 (which
  cannot move).
\<close>

theorem idle_tap_selects_witness:
  "onSquareClick sample_engine 0 ''e2'' (started Initial) =
     (started Initial)\<lparr>selected := Some ''e2''\<rparr> \<and>
   onSquareClick sample_engine 0 ''g7'' (started InCheck) =
     (started InCheck)\<lparr>selected := Some ''g7''\<rparr> \<and>
   selected (onSquareClick sample_engine 0 ''a7'' (started InCheck)) = None \<and>
   checkFlash (onSquareClick sample_engine 0 ''a7'' (started InCheck)) \<and>
   effects (onSquareClick sample_engine 0 ''a7'' (started InCheck)) =
     [Vibrate [30], Audio IllegalSnd] \<and>
   effects (onPiecePointerDown sample_engine ''a7'' 0 ''touch'' 5 5 (started InCheck)) =
     [Vibrate [30], Audio IllegalSnd]"
  using idle_tap_selects [of 0 "started Initial" sample_engine "''e2''" "mk_piece CHR ''p'' W"]
    idle_tap_selects [of 0 "started InCheck" sample_engine "''g7''" "mk_piece CHR ''p'' B"]
    idle_tap_selects [of 0 "started InCheck" sample_engine "''a7''" "mk_piece CHR ''p'' B"
      0 "''touch''" 5 5]
  by (simp add: started_fields started_timers sample_simps mk_piece_def)

subsection \<open>C9: tapping the selected square\<close>

text \<open>
  C9 as stated does not hold: the deselection clears the last-move highlight. After 1. e4
  Black selects e7 (the highlight still shows e2 and e4) and taps e7 again: the highlight
  is empty.
\<close>

theorem deselect_clears_highlight_counterexample:
  "selected (onSquareClick sample_engine 0 ''e7''
      (tryMove sample_engine ''e2'' ''e4'' (started Initial))) = Some ''e7'' \<and>
   lastMoveSquares (onSquareClick sample_engine 0 ''e7''
      (tryMove sample_engine ''e2'' ''e4'' (started Initial))) = {''e2'', ''e4''} \<and>
   lastMoveSquares (onSquareClick sample_engine 0 ''e7''
      (onSquareClick sample_engine 0 ''e7''
         (tryMove sample_engine ''e2'' ''e4'' (started Initial)))) = {}"
  by (simp add: run_defs base_defs sample_simps Let_def)

text \<open>
  C9, amended. A processed click on the currently selected square sets the selection to
  none, empties the last-move highlight and advances the state tick; every other field of
  the session is unchanged.
\<close>

theorem deselect_effect:
  assumes "\<not> now < suppressClickUntil s" and "\<not> ask (promotion s)"
    and "\<not> chess_isGameOver E (game s)" and "gameOver s = None" and "running s"
    and "selected s = Some name" and "name \<noteq> []"
  shows "onSquareClick E now name s =
         s\<lparr>selected := None, lastMoveSquares := {}, stateTick := stateTick s + 1\<rparr>"
  using assms by (simp add: onSquareClick_def clearSelection_def bumpTick_def)

text \<open>The theorem on the sample engine: e2 is selected and tapped again.\<close>

theorem deselect_effect_witness:
  "onSquareClick sample_engine 0 ''e2'' ((started Initial)\<lparr>selected := Some ''e2''\<rparr>) =
   (started Initial)\<lparr>selected := None, lastMoveSquares := {}, stateTick := 1\<rparr>"
  using deselect_effect
    [of 0 "(started Initial)\<lparr>selected := Some ''e2''\<rparr>" sample_engine "''e2''"]
  by (simp add: started_fields sample_simps) (simp add: run_defs base_defs Let_def)

subsection \<open>C10: the promotion choice\<close>

text \<open>
  C10, at a concrete run. The pawn is dropped from a7 on a8, which makes the promotion
  pending; a reset follows (it puts the starting position on the board and leaves the
  pending record as it is); then the queen is chosen. The engine rejects a7-a8 on the
  starting position, so the statement that clears the record is never reached: the call
  changes nothing and the promotion is still pending after it.

  In general (lemma \<open>promote_cases\<close>): without a pending promotion the call changes
  nothing; when the engine accepts the held move the record is cleared; when it rejects
  the move the session, pending record included, is unchanged.
\<close>

theorem promote_rejected_stays_pending:
  "chess_move sample_engine
     (game (reset sample_engine (tryMove sample_engine ''a7'' ''a8'' (started PromoReady))))
     ''a7'' ''a8'' (Some CHR ''q'') = None \<and>
   promote sample_engine CHR ''q''
     (reset sample_engine (tryMove sample_engine ''a7'' ''a8'' (started PromoReady))) =
   reset sample_engine (tryMove sample_engine ''a7'' ''a8'' (started PromoReady)) \<and>
   promotion (promote sample_engine CHR ''q''
     (reset sample_engine (tryMove sample_engine ''a7'' ''a8'' (started PromoReady)))) =
   \<lparr>ask = True, prcolor = Some W, prfrom = Some ''a7'', prto = Some ''a8''\<rparr>"
  by (simp add: promote_def Let_def truthy_def pending_after_reset sample_simps)

text \<open>In short, at that run: the promotion is still asked for after the choice was made.\<close>

theorem promote_rejected_stays_pending_witness:
  "ask (promotion (promote sample_engine CHR ''q''
     (reset sample_engine (tryMove sample_engine ''a7'' ''a8'' (started PromoReady)))))"
  using promote_rejected_stays_pending [THEN conjunct2, THEN conjunct2] by simp

end
